theory Spec2Isabelle
  imports Complex_Main "HOL-Library.List_Lexorder" "HOL-Library.Char_ord"
begin

section \<open>Values shared by the runner, the adapter and the dispatcher\<close>

text \<open>
  Isabelle's \<open>char\<close> is an 8-bit value, so a Python \<open>bytes\<close> object is a \<open>char list\<close>.
  Python text (\<open>str\<close>) is modelled as \<open>string\<close> as well, for text whose code points are
  all below 256. The two are kept apart by the codec functions of the platform record below.
\<close>

type_synonym bytes = "char list"

text \<open>
  Python's \<open>isinstance(v, int)\<close> accepts \<open>bool\<close> too, since \<open>bool\<close> is a subclass of
  \<open>int\<close>; a value that passed the test is one of the two.
\<close>

datatype pyint = PInt int | PBool bool

fun ival :: "pyint \<Rightarrow> int" where
  "ival (PInt n) = n"
| "ival (PBool b) = (if b then 1 else 0)"

text \<open>
  A parsed JSON value. \<open>JSurrogateStr\<close> stands for a \<open>str\<close> that holds a lone surrogate,
  which JSON text can carry (as \<open>\ud800\<close>) and which UTF-8 cannot encode. Such a \<open>str\<close> is
  not blank (a surrogate is not white space), it is truthy and hashable, and it equals none
  of the literals the code compares with.
\<close>

datatype json =
    JNull
  | JBool bool
  | JInt int
  | JFloat rat
  | JStr string
  | JSurrogateStr
  | JList "json list"
  | JObj "(string \<times> json) list"

type_synonym dict = "(string \<times> json) list"

fun json_of_pyint :: "pyint \<Rightarrow> json" where
  "json_of_pyint (PInt n) = JInt n"
| "json_of_pyint (PBool b) = JBool b"

definition digit_char :: "nat \<Rightarrow> char" where
  "digit_char d = char_of (48 + d)"

fun str_nat :: "nat \<Rightarrow> string" where
  "str_nat n = (if n < 10 then [digit_char n] else str_nat (n div 10) @ [digit_char (n mod 10)])"

definition str_int :: "int \<Rightarrow> string" where
  "str_int i = (if i < 0 then CHR ''-'' # str_nat (nat (- i)) else str_nat (nat i))"

fun str_pyint :: "pyint \<Rightarrow> string" where
  "str_pyint (PInt n) = str_int n"
| "str_pyint (PBool b) = (if b then ''True'' else ''False'')"

fun join :: "string \<Rightarrow> string list \<Rightarrow> string" where
  "join sep [] = []"
| "join sep [x] = x"
| "join sep (x # y # ys) = x @ sep @ join sep (y # ys)"

section \<open>The bounded process runner (runner.py)\<close>

datatype exn =
    RunnerError string string dict
  | TypeError
  | IsADirectoryError
  | OverflowError
  | UnicodeEncodeError

datatype why = WaitsForever | ScriptEnded

datatype 'a outcome = Returned 'a | Raised exn | NoReturn why

datatype channel = Stdout | Stderr

text \<open>
  The effects of a call, in the order the code performs them. \<open>Select\<close> and \<open>Wait\<close> carry
  the timeout argument the code passes (\<open>None\<close>: no timeout argument).
\<close>

datatype event =
    Invoke "string list" string pyint pyint pyint
  | Popen "string list" string
  | Select rat
  | Read channel bytes
  | Unregister channel
  | Poll
  | Terminate
  | Wait "rat option"
  | Kill

text \<open>
  What the operating system and the child process answer. One \<open>tick\<close> is one iteration of
  the read loop: the reading of \<open>time.monotonic() - start\<close>, what \<open>select\<close> reports
  together with what \<open>os.read\<close> then returns for each reported stream (\<open>None\<close>: OSError),
  and the value of \<open>process.poll()\<close>.
\<close>

record tick =
  elapsed :: rat
  ready :: "(channel \<times> bytes option) list"
  polled :: "int option"

datatype node = File bytes | Directory

type_synonym dir = "(string \<times> node) list"

datatype spawn_result = Started | FileNotFound | OSFailure string

record proc =
  spawn :: spawn_result
  ticks :: "tick list"
  exits_in_grace :: bool
  final :: "(int \<times> rat) option"
  fs :: "dir \<Rightarrow> dir"

text \<open>
  Everything the repository takes from outside: the child processes (by argument vector),
  the name of the temporary directory, Python's UTF-8 codec (\<open>errors="replace"\<close> when
  decoding), what \<open>Path.read_text\<close> makes of a file's bytes (decoding with
  \<open>errors="replace"\<close> and universal newlines), \<open>mimetypes.guess_type\<close> and
  \<open>base64.b64encode\<close>.
\<close>

record platform =
  child :: "string list \<Rightarrow> proc"
  mkdtemp :: string
  utf8_decode :: "bytes \<Rightarrow> string"
  utf8_encode :: "string \<Rightarrow> bytes"
  read_text :: "bytes \<Rightarrow> string"
  guess_type :: "string \<Rightarrow> string option"
  b64encode :: "bytes \<Rightarrow> string"

record rstate =
  stdout_buf :: bytes
  stderr_buf :: bytes
  stdout_truncated :: bool
  stderr_truncated :: bool
  registered :: "channel set"

definition rstate0 :: rstate where
  "rstate0 = \<lparr>stdout_buf = [], stderr_buf = [], stdout_truncated = False,
     stderr_truncated = False, registered = {Stdout, Stderr}\<rparr>"

text \<open>The body of \<open>for key, _ in events\<close> (runner.py lines 78-103) for one event.\<close>

definition feed :: "int \<Rightarrow> int \<Rightarrow> rstate \<Rightarrow> channel \<times> bytes option \<Rightarrow> rstate \<times> event list" where
  "feed max_stdout_bytes max_stderr_bytes st ev =
     (let channel = fst ev;
          chunk = (case snd ev of None \<Rightarrow> [] | Some b \<Rightarrow> b)
      in if chunk = [] then
           (st\<lparr>registered := registered st - {channel}\<rparr>, [Read channel chunk, Unregister channel])
         else if channel = Stdout then
           (let remaining = max_stdout_bytes - int (length (stdout_buf st));
                st1 = (if remaining > 0
                       then st\<lparr>stdout_buf := stdout_buf st @ take (nat remaining) chunk\<rparr> else st);
                st2 = (if int (length chunk) > remaining
                       then st1\<lparr>stdout_truncated := True\<rparr> else st1)
            in (st2, [Read channel chunk]))
         else
           (let remaining = max_stderr_bytes - int (length (stderr_buf st));
                st1 = (if remaining > 0
                       then st\<lparr>stderr_buf := stderr_buf st @ take (nat remaining) chunk\<rparr> else st);
                st2 = (if int (length chunk) > remaining
                       then st1\<lparr>stderr_truncated := True\<rparr> else st1)
            in (st2, [Read channel chunk])))"

fun pump :: "int \<Rightarrow> int \<Rightarrow> rstate \<Rightarrow> (channel \<times> bytes option) list \<Rightarrow> rstate \<times> event list" where
  "pump mo me st [] = (st, [])"
| "pump mo me st (ev # evs) =
     (let (st1, tr1) = feed mo me st ev; (st2, tr2) = pump mo me st1 evs in (st2, tr1 @ tr2))"

datatype loop_exit = Finished rstate | TimedOut | Starved

text \<open>
  The \<open>while selector.get_map()\<close> loop (lines 60-103). The selector reports registered streams
  only, hence the filter. A script that ends while a stream is still registered says nothing
  about the next iteration: that is \<open>Starved\<close>.
\<close>

fun read_loop :: "rat \<Rightarrow> int \<Rightarrow> int \<Rightarrow> bool \<Rightarrow> rstate \<Rightarrow> tick list \<Rightarrow> event list \<times> loop_exit" where
  "read_loop timeout_s mo me grace st [] =
     (if registered st = {} then ([], Finished st) else ([], Starved))"
| "read_loop timeout_s mo me grace st (tk # rest) =
     (if registered st = {} then ([], Finished st)
      else if elapsed tk \<ge> timeout_s then
        ([Terminate, Wait (Some (1 / 2))] @ (if grace then [] else [Kill]), TimedOut)
      else
        (let events = filter (\<lambda>ev. fst ev \<in> registered st) (ready tk) in
         if events = [] \<and> polled tk \<noteq> None then ([Select (1 / 20), Poll], Finished st)
         else
           (let (st1, tr1) = pump mo me st events;
                (tr2, r) = read_loop timeout_s mo me grace st1 rest
            in ([Select (1 / 20)] @ (if events = [] then [Poll] else []) @ tr1 @ tr2, r))))"

text \<open>Python's \<open>int(x)\<close> on a float truncates towards zero.\<close>

definition trunc :: "rat \<Rightarrow> int" where
  "trunc x = (if x \<ge> 0 then \<lfloor>x\<rfloor> else \<lceil>x\<rceil>)"

text \<open>
  \<open>timeout_ms / 1000.0\<close> (line 58) converts the int to a float first, and an int that
  rounds to \<open>2 ^ 1024\<close> or more raises \<open>OverflowError\<close>. The process has been started by
  then, and nothing catches the exception.
\<close>

definition float_overflow :: int where
  "float_overflow = 2 ^ 1024 - 2 ^ 970"

definition run_process ::
  "platform \<Rightarrow> string list \<Rightarrow> string \<Rightarrow> pyint \<Rightarrow> pyint \<Rightarrow> pyint
     \<Rightarrow> event list \<times> (string \<times> string \<times> int \<times> int) outcome" where
  "run_process P argv cwd timeout_ms max_stdout_bytes max_stderr_bytes =
     (let call = Invoke argv cwd timeout_ms max_stdout_bytes max_stderr_bytes in
      if argv = [] then
        ([call], Raised (RunnerError ''invalid_request'' ''argv must not be empty.'' []))
      else if ival timeout_ms \<le> 0 then
        ([call], Raised (RunnerError ''invalid_request'' ''timeout_ms must be > 0.'' []))
      else if ival max_stdout_bytes \<le> 0 \<or> ival max_stderr_bytes \<le> 0 then
        ([call], Raised (RunnerError ''invalid_request''
                   ''max stdout/stderr byte limits must be > 0.'' []))
      else
        (let p = child P argv in
         case spawn p of
           FileNotFound \<Rightarrow>
             ([call, Popen argv cwd],
              Raised (RunnerError ''process_not_found'' (''Executable not found: '' @ hd argv)
                        [(''argv0'', JStr (hd argv))]))
         | OSFailure msg \<Rightarrow>
             ([call, Popen argv cwd],
              Raised (RunnerError ''process_start_failed'' msg [(''argv'', JStr (join '' '' argv))]))
         | Started \<Rightarrow>
             if ival timeout_ms \<ge> float_overflow then ([call, Popen argv cwd], Raised OverflowError)
             else
             (let timeout_s = of_int (ival timeout_ms) / 1000;
                  (tr, r) = read_loop timeout_s (ival max_stdout_bytes) (ival max_stderr_bytes)
                              (exits_in_grace p) rstate0 (ticks p)
              in case r of
                   TimedOut \<Rightarrow>
                     ([call, Popen argv cwd] @ tr,
                      Raised (RunnerError ''timeout''
                                (''Process exceeded timeout of '' @ str_pyint timeout_ms @ '' ms.'')
                                [(''timeout_ms'', json_of_pyint timeout_ms)]))
                 | Starved \<Rightarrow> ([call, Popen argv cwd] @ tr, NoReturn ScriptEnded)
                 | Finished st \<Rightarrow>
                     (case final p of
                        None \<Rightarrow> ([call, Popen argv cwd] @ tr @ [Wait None], NoReturn WaitsForever)
                      | Some (exit_code, t_end) \<Rightarrow>
                          (let elapsed_ms = trunc (t_end * 1000);
                               stdout_text = utf8_decode P (stdout_buf st)
                                 @ (if stdout_truncated st then [CHR 0x0A] @ ''[stdout truncated]'' else []);
                               stderr_text = utf8_decode P (stderr_buf st)
                                 @ (if stderr_truncated st then [CHR 0x0A] @ ''[stderr truncated]'' else [])
                           in ([call, Popen argv cwd] @ tr @ [Wait None],
                               Returned (stdout_text, stderr_text, exit_code, elapsed_ms)))))))"

section \<open>The ngspice adapter (tools/ngspice.py)\<close>

record limits =
  timeout_ms :: pyint
  max_stdout_bytes :: pyint
  max_stderr_bytes :: pyint
  max_file_bytes :: pyint

definition DEFAULT_LIMITS :: limits where
  "DEFAULT_LIMITS = \<lparr>timeout_ms = PInt 10000, max_stdout_bytes = PInt 1000000,
     max_stderr_bytes = PInt 1000000, max_file_bytes = PInt 10000000\<rparr>"

definition ALLOWED_FILE_EXTENSIONS :: "string set" where
  "ALLOWED_FILE_EXTENSIONS = {''.log'', ''.raw'', ''.txt''}"

text \<open>\<open>isinstance(v, int)\<close>: the value as a Python int, when it is one.\<close>

fun as_int :: "json \<Rightarrow> pyint option" where
  "as_int (JInt n) = Some (PInt n)"
| "as_int (JBool b) = Some (PBool b)"
| "as_int v = None"

text \<open>
  One round of the loop \<open>for key in DEFAULT_LIMITS\<close> (lines 25-27): the entry of the
  merged mapping for \<open>key\<close>, whose default is \<open>dflt\<close>.
\<close>

definition override :: "dict \<Rightarrow> string \<Rightarrow> pyint \<Rightarrow> pyint" where
  "override ls key dflt =
     (case map_of ls key of
        None \<Rightarrow> dflt
      | Some v \<Rightarrow> (case as_int v of None \<Rightarrow> dflt | Some n \<Rightarrow> n))"

definition build_limits :: "dict option \<Rightarrow> limits" where
  "build_limits ls =
     (case ls of
        None \<Rightarrow> DEFAULT_LIMITS
      | Some d \<Rightarrow>
          if d = [] then DEFAULT_LIMITS
          else \<lparr>timeout_ms = override d ''timeout_ms'' (timeout_ms DEFAULT_LIMITS),
                 max_stdout_bytes = override d ''max_stdout_bytes'' (max_stdout_bytes DEFAULT_LIMITS),
                 max_stderr_bytes = override d ''max_stderr_bytes'' (max_stderr_bytes DEFAULT_LIMITS),
                 max_file_bytes = override d ''max_file_bytes'' (max_file_bytes DEFAULT_LIMITS)\<rparr>)"

record error_obj =
  type :: string
  message :: string
  details :: dict

record artifact =
  name :: string
  mime :: string
  bytes_base64 :: string

record metrics =
  elapsed_ms :: int
  exit_code :: int

record envelope =
  ok :: bool
  stdout :: string
  stderr :: string
  files :: "artifact list"
  metrics :: metrics
  error :: "error_obj option"

definition error_response :: "string \<Rightarrow> string \<Rightarrow> dict \<Rightarrow> envelope" where
  "error_response error_type msg dets =
     \<lparr>ok = False, stdout = [], stderr = [], files = [],
      metrics = \<lparr>elapsed_ms = 0, exit_code = - 1\<rparr>,
      error = Some \<lparr>type = error_type, message = msg, details = dets\<rparr>\<rparr>"

definition response ::
  "bool \<Rightarrow> string \<Rightarrow> string \<Rightarrow> artifact list \<Rightarrow> int \<Rightarrow> int \<Rightarrow> error_obj option \<Rightarrow> envelope" where
  "response okv out err fs_list ms code errv =
     \<lparr>ok = okv, stdout = out, stderr = err, files = fs_list,
      metrics = \<lparr>elapsed_ms = ms, exit_code = code\<rparr>, error = errv\<rparr>"

subsection \<open>Text helpers: Python's \<open>str\<close> methods on code points below 256\<close>

definition lower_char :: "char \<Rightarrow> char" where
  "lower_char c =
     (let n = (of_char c :: nat)
      in if (65 \<le> n \<and> n \<le> 90) \<or> (192 \<le> n \<and> n \<le> 222 \<and> n \<noteq> 215) then char_of (n + 32) else c)"

definition lower :: "string \<Rightarrow> string" where
  "lower s = map lower_char s"

definition isspace :: "char \<Rightarrow> bool" where
  "isspace c =
     (let n = (of_char c :: nat)
      in (9 \<le> n \<and> n \<le> 13) \<or> (28 \<le> n \<and> n \<le> 32) \<or> n = 133 \<or> n = 160)"

definition strip :: "string \<Rightarrow> string" where
  "strip s = rev (dropWhile isspace (rev (dropWhile isspace s)))"

text \<open>\<open>sub in s\<close> for strings.\<close>

fun contains :: "string \<Rightarrow> string \<Rightarrow> bool" where
  "contains sub [] = (sub = [])"
| "contains sub (c # cs) = (take (length sub) (c # cs) = sub \<or> contains sub cs)"

text \<open>
  \<open>str.splitlines()\<close>: a line ends at LF, CR, CR LF, VT, FF, FS, GS, RS or NEL; the
  terminators are dropped and a terminator at the very end opens no further line.
\<close>

definition is_linebreak :: "char \<Rightarrow> bool" where
  "is_linebreak c =
     (let n = (of_char c :: nat)
      in (10 \<le> n \<and> n \<le> 13) \<or> (28 \<le> n \<and> n \<le> 30) \<or> n = 133)"

fun split_from :: "string \<Rightarrow> string \<Rightarrow> string list" where
  "split_from cur [] = (if cur = [] then [] else [cur])"
| "split_from cur (c # cs) =
     (if c = CHR 0x0D then
        (case cs of
           [] \<Rightarrow> cur # split_from [] cs
         | d # ds \<Rightarrow> if d = CHR 0x0A then cur # split_from [] ds else cur # split_from [] cs)
      else if is_linebreak c then cur # split_from [] cs
      else split_from (cur @ [c]) cs)"

definition splitlines :: "string \<Rightarrow> string list" where
  "splitlines s = split_from [] s"

text \<open>
  \<open>PurePath.suffix\<close>: the name from its last dot on, when that dot is neither the first
  nor the last character of the name; empty otherwise. (From Python 3.14 on a name that ends
  with a dot has the suffix \<open>.\<close>, which is no allowed extension either.)
\<close>

definition rfind :: "char \<Rightarrow> string \<Rightarrow> nat option" where
  "rfind c s =
     (if c \<in> set s then Some (length s - 1 - length (takeWhile (\<lambda>x. x \<noteq> c) (rev s))) else None)"

definition suffix :: "string \<Rightarrow> string" where
  "suffix nm =
     (case rfind (CHR ''.'') nm of
        None \<Rightarrow> []
      | Some i \<Rightarrow> if 0 < i \<and> int i < int (length nm) - 1 then drop i nm else [])"

subsection \<open>Collecting artifacts and reading the log\<close>

text \<open>
  The loop body of \<open>_collect_files\<close> (lines 63-79) over the sorted entries. The default
  MIME type stands in for a guess that is \<open>None\<close> or empty (\<open>or\<close>, line 72).
\<close>

fun collect :: "platform \<Rightarrow> int \<Rightarrow> dir \<Rightarrow> artifact list" where
  "collect P max_bytes [] = []"
| "collect P max_bytes ((nm, nd) # es) =
     (case nd of
        Directory \<Rightarrow> collect P max_bytes es
      | File data \<Rightarrow>
          if lower (suffix nm) \<notin> ALLOWED_FILE_EXTENSIONS then collect P max_bytes es
          else if int (length data) > max_bytes then collect P max_bytes es
          else \<lparr>name = nm,
                 mime = (case guess_type P nm of
                           None \<Rightarrow> ''application/octet-stream''
                         | Some t \<Rightarrow> if t = [] then ''application/octet-stream'' else t),
                 bytes_base64 = b64encode P data\<rparr> # collect P max_bytes es)"

definition collect_files :: "platform \<Rightarrow> dir \<Rightarrow> pyint \<Rightarrow> artifact list" where
  "collect_files P workdir max_bytes = collect P (ival max_bytes) (sort_key fst workdir)"

definition is_error_line :: "string \<Rightarrow> bool" where
  "is_error_line line = (contains ''error:'' (lower line) \<or> contains ''fatal'' (lower line))"

definition log_has_errors :: "string \<Rightarrow> bool" where
  "log_has_errors log_text = list_ex is_error_line (splitlines log_text)"

definition log_relevant_excerpt :: "string \<Rightarrow> nat \<Rightarrow> string" where
  "log_relevant_excerpt log_text limit_lines =
     (let lns = splitlines log_text;
          relevant = filter is_error_line lns
      in if relevant \<noteq> [] then join [CHR 0x0A] (take limit_lines relevant)
         else join [CHR 0x0A] (take limit_lines lns))"

subsection \<open>The three operations\<close>

text \<open>
  A \<open>RunnerError\<close> is caught and turned into the failure envelope (the \<open>except\<close> clauses
  at lines 126, 161 and 194); anything else the runner's outcome can be passes through.
\<close>

definition version_result :: "string \<times> string \<times> int \<times> int \<Rightarrow> envelope" where
  "version_result r =
     (case r of (out, err, code, ms) \<Rightarrow>
        (let okv = (code = 0)
         in response okv out err [] ms code
              (if okv then None
               else Some \<lparr>type = ''process_failed'', message = ''ngspice version command failed.'',
                            details = []\<rparr>)))"

definition version :: "platform \<Rightarrow> dict option \<Rightarrow> event list \<times> envelope outcome" where
  "version P ls =
     (let cfg = build_limits ls;
          cwd = mkdtemp P;
          (tr1, r1) = run_process P [''ngspice'', ''-v''] cwd
                        (timeout_ms cfg) (max_stdout_bytes cfg) (max_stderr_bytes cfg)
      in case r1 of
           Raised (RunnerError t m d) \<Rightarrow> (tr1, Returned (error_response t m d))
         | Raised e \<Rightarrow> (tr1, Raised e)
         | NoReturn w \<Rightarrow> (tr1, NoReturn w)
         | Returned (out, err, code, ms) \<Rightarrow>
             if code \<noteq> 0 then
               (let (tr2, r2) = run_process P [''ngspice'', ''-V''] cwd
                                  (timeout_ms cfg) (max_stdout_bytes cfg) (max_stderr_bytes cfg)
                in case r2 of
                     Raised (RunnerError t m d) \<Rightarrow> (tr1 @ tr2, Returned (error_response t m d))
                   | Raised e \<Rightarrow> (tr1 @ tr2, Raised e)
                   | NoReturn w \<Rightarrow> (tr1 @ tr2, NoReturn w)
                   | Returned r \<Rightarrow> (tr1 @ tr2, Returned (version_result r)))
             else (tr1, Returned (version_result (out, err, code, ms))))"

definition smoke_netlist :: string where
  "smoke_netlist = join [CHR 0x0A]
     [''* ngspice smoke test'', ''V1 in 0 DC 1'', ''R1 in out 1k'', ''C1 out 0 1u'',
      ''.tran 1u 1m'', ''.end'', []]"

definition smoketest :: "platform \<Rightarrow> dict option \<Rightarrow> event list \<times> envelope outcome" where
  "smoketest P ls =
     (let cfg = build_limits ls;
          cwd = mkdtemp P;
          dir0 = [(''smoke.cir'', File (utf8_encode P smoke_netlist))];
          argv = [''ngspice'', ''-b'', ''-r'', ''smoke.raw'', ''-o'', ''smoke.log'', ''smoke.cir''];
          (tr, r) = run_process P argv cwd
                      (timeout_ms cfg) (max_stdout_bytes cfg) (max_stderr_bytes cfg)
      in case r of
           Raised (RunnerError t m d) \<Rightarrow> (tr, Returned (error_response t m d))
         | Raised e \<Rightarrow> (tr, Raised e)
         | NoReturn w \<Rightarrow> (tr, NoReturn w)
         | Returned (out, err, code, ms) \<Rightarrow>
             (let dir1 = fs (child P argv) dir0;
                  fl = collect_files P dir1 (max_file_bytes cfg);
                  okv = (code = 0 \<and> length fl > 0);
                  errv = (if \<not> okv
                          then Some \<lparr>type = ''process_failed'', message = ''ngspice smoketest failed.'',
                                       details = []\<rparr>
                          else None)
              in (tr, Returned (response okv out err fl ms code errv))))"

text \<open>
  \<open>write_text\<close> (line 173) stands before the \<open>try\<close>: a text that UTF-8 cannot encode
  raises \<open>UnicodeEncodeError\<close> there, before the runner is called. \<open>validate.log\<close> is read
  when it exists; \<open>read_text\<close> on a directory raises, and only \<open>RunnerError\<close> is caught.
\<close>

definition validate_netlist :: "platform \<Rightarrow> json \<Rightarrow> dict option \<Rightarrow> event list \<times> envelope outcome" where
  "validate_netlist P netlist_text ls =
     (let cfg = build_limits ls in
      case netlist_text of
        JStr txt \<Rightarrow>
          if strip txt = [] then
            ([], Returned (error_response ''invalid_input'' ''netlist_text must be a non-empty string.'' []))
          else
            (let cwd = mkdtemp P;
                 dir0 = [(''input.cir'', File (utf8_encode P txt))];
                 argv = [''ngspice'', ''-b'', ''-o'', ''validate.log'', ''input.cir''];
                 (tr, r) = run_process P argv cwd
                             (timeout_ms cfg) (max_stdout_bytes cfg) (max_stderr_bytes cfg)
             in case r of
                  Raised (RunnerError t m d) \<Rightarrow> (tr, Returned (error_response t m d))
                | Raised e \<Rightarrow> (tr, Raised e)
                | NoReturn w \<Rightarrow> (tr, NoReturn w)
                | Returned (out, err, code, ms) \<Rightarrow>
                    (let dir1 = fs (child P argv) dir0 in
                     case map_of dir1 ''validate.log'' of
                       Some Directory \<Rightarrow> (tr, Raised IsADirectoryError)
                     | lg \<Rightarrow>
                         (let log_text = (case lg of Some (File b) \<Rightarrow> read_text P b | _ \<Rightarrow> []);
                              has_log_errors = log_has_errors log_text;
                              okv = (code = 0 \<and> \<not> has_log_errors);
                              fl = collect_files P dir1 (max_file_bytes cfg);
                              errv =
                                (if \<not> okv then
                                   Some \<lparr>type = ''validation_failed'',
                                          message = ''ngspice reported validation errors.'',
                                          details = [(''exit_code'', JInt code)]
                                            @ (if log_text \<noteq> []
                                               then [(''log_excerpt'', JStr (log_relevant_excerpt log_text 50))]
                                               else [])\<rparr>
                                 else None)
                          in (tr, Returned (response okv out err fl ms code errv)))))
      | JSurrogateStr \<Rightarrow> ([], Raised UnicodeEncodeError)
      | _ \<Rightarrow>
          ([], Returned (error_response ''invalid_input'' ''netlist_text must be a non-empty string.'' [])))"

section \<open>The dispatcher (server.py)\<close>

text \<open>Python truthiness of a parsed JSON value, as \<open>payload.get(...) or {}\<close> tests it.\<close>

fun truthy :: "json \<Rightarrow> bool" where
  "truthy JNull = False"
| "truthy (JBool b) = b"
| "truthy (JInt n) = (n \<noteq> 0)"
| "truthy (JFloat x) = (x \<noteq> 0)"
| "truthy (JStr s) = (s \<noteq> [])"
| "truthy JSurrogateStr = True"
| "truthy (JList xs) = (xs \<noteq> [])"
| "truthy (JObj d) = (d \<noteq> [])"

text \<open>\<open>d.get(key)\<close>: the value, or \<open>None\<close>.\<close>

definition dict_get :: "dict \<Rightarrow> string \<Rightarrow> json" where
  "dict_get d key = (case map_of d key of None \<Rightarrow> JNull | Some v \<Rightarrow> v)"

definition or_empty :: "json \<Rightarrow> json" where
  "or_empty v = (if truthy v then v else JObj [])"

text \<open>Lists and dicts are unhashable: testing membership in a set raises \<open>TypeError\<close>.\<close>

fun hashable :: "json \<Rightarrow> bool" where
  "hashable (JList xs) = False"
| "hashable (JObj d) = False"
| "hashable v = True"

definition handle_run :: "platform \<Rightarrow> json \<Rightarrow> event list \<times> envelope outcome" where
  "handle_run P payload =
     (case payload of
        JObj pl \<Rightarrow>
          (let tool = dict_get pl ''tool'';
               op = dict_get pl ''op'';
               inputs = or_empty (dict_get pl ''inputs'');
               lims = or_empty (dict_get pl ''limits'')
           in if tool \<noteq> JStr ''ngspice'' then
                ([], Returned (error_response ''unknown_tool'' ''Unsupported tool.'' [(''tool'', tool)]))
              else if \<not> hashable op then ([], Raised TypeError)
              else if op \<notin> {JStr ''version'', JStr ''smoketest'', JStr ''validate_netlist''} then
                ([], Returned (error_response ''unknown_op'' ''Unsupported operation.'' [(''op'', op)]))
              else
                (case inputs of
                   JObj inp \<Rightarrow>
                     (case lims of
                        JObj lm \<Rightarrow>
                          if op = JStr ''version'' then version P (Some lm)
                          else if op = JStr ''smoketest'' then smoketest P (Some lm)
                          else validate_netlist P (dict_get inp ''netlist_text'') (Some lm)
                      | _ \<Rightarrow>
                          ([], Returned (error_response ''invalid_request'' ''limits must be an object.'' [])))
                 | _ \<Rightarrow>
                     ([], Returned (error_response ''invalid_request'' ''inputs must be an object.'' []))))
      | _ \<Rightarrow>
          ([], Returned (error_response ''invalid_request'' ''Request body must be a JSON object.'' [])))"

section \<open>Observations on traces, and example platforms\<close>

text \<open>The bytes \<open>os.read\<close> delivered on a channel during a call, in order.\<close>

fun bytes_read :: "channel \<Rightarrow> event list \<Rightarrow> bytes" where
  "bytes_read c [] = []"
| "bytes_read c (Read c' chunk # tr) = (if c' = c then chunk else []) @ bytes_read c tr"
| "bytes_read c (e # tr) = bytes_read c tr"

text \<open>
  The relation the read loop keeps between the bytes delivered so far on a channel, the
  buffer and the truncation flag, for a cap \<open>cap\<close>.
\<close>

definition capped :: "int \<Rightarrow> bytes \<Rightarrow> bytes \<Rightarrow> bool \<Rightarrow> bool" where
  "capped cap got buf flag \<longleftrightarrow> buf = take (nat cap) got \<and> flag = (int (length got) > cap)"

text \<open>
  The bytes that the reads of a stream return in the course of the loop, as the answers of
  the operating system determine them: a stream is read while it is registered, a read that
  returns nothing or fails unregisters it, and nothing is read any more once no stream is
  registered, the timeout is reached, or the loop has ended because no stream was ready
  and the process had exited.
\<close>

fun received :: "channel \<Rightarrow> rat \<Rightarrow> channel set \<Rightarrow> tick list \<Rightarrow> bytes" where
  "received c timeout_s reg [] = []"
| "received c timeout_s reg (tk # rest) =
     (let events = filter (\<lambda>ev. fst ev \<in> reg) (ready tk) in
      if reg = {} \<or> elapsed tk \<ge> timeout_s \<or> (events = [] \<and> polled tk \<noteq> None) then []
      else concat (map (\<lambda>ev. case snd ev of None \<Rightarrow> [] | Some b \<Rightarrow> b)
                      (filter (\<lambda>ev. fst ev = c) events))
           @ received c timeout_s
               (reg - set (map fst (filter (\<lambda>ev. snd ev = None \<or> snd ev = Some []) events))) rest)"

text \<open>
  The bytes the child wrote to a stream: all that the reads of the stream return or would
  return, whether the runner gets to them or not.
\<close>

definition emitted :: "channel \<Rightarrow> tick list \<Rightarrow> bytes" where
  "emitted c tks =
     concat (map (\<lambda>tk. concat (map (\<lambda>ev. case snd ev of None \<Rightarrow> [] | Some b \<Rightarrow> b)
                                    (filter (\<lambda>ev. fst ev = c) (ready tk)))) tks)"

fun is_invoke :: "event \<Rightarrow> bool" where
  "is_invoke (Invoke argv cwd t mo me) = True"
| "is_invoke e = False"

fun is_popen :: "event \<Rightarrow> bool" where
  "is_popen (Popen argv cwd) = True"
| "is_popen e = False"

definition invocations :: "event list \<Rightarrow> event list" where
  "invocations tr = filter is_invoke tr"

text \<open>
  Example children. \<open>exiting_proc code\<close> closes both streams and has exited with \<open>code\<close> by
  the first poll. \<open>detached_proc\<close> closes both streams at once and goes on running for 60
  seconds. \<open>chatty_proc\<close> writes \<open>abcde\<close> to stdout and \<open>xyz\<close> to stderr, in pieces.
  \<open>failed_read_proc\<close> writes \<open>abc\<close> to stdout, but the first read of stdout fails with
  \<open>OSError\<close>. \<open>slow_proc\<close> is still starting up 10 ms after the call and would run for a
  second. \<open>logging_proc\<close> exits with 0 after leaving a log with an error line in the working
  directory. \<open>missing_proc\<close> is an executable that is not there.
\<close>

definition exiting_proc :: "int \<Rightarrow> proc" where
  "exiting_proc code =
     \<lparr>spawn = Started,
      ticks = [\<lparr>elapsed = 0, ready = [(Stdout, Some []), (Stderr, Some [])], polled = Some code\<rparr>],
      exits_in_grace = True, final = Some (code, 1 / 100), fs = (\<lambda>d. d)\<rparr>"

definition detached_proc :: proc where
  "detached_proc =
     \<lparr>spawn = Started,
      ticks = [\<lparr>elapsed = 0, ready = [(Stdout, Some []), (Stderr, Some [])], polled = None\<rparr>],
      exits_in_grace = True, final = Some (0, 60), fs = (\<lambda>d. d)\<rparr>"

definition chatty_proc :: proc where
  "chatty_proc =
     \<lparr>spawn = Started,
      ticks = [\<lparr>elapsed = 0, ready = [(Stdout, Some ''abc'')], polled = None\<rparr>,
               \<lparr>elapsed = 1 / 100, ready = [(Stdout, Some ''de''), (Stderr, Some ''xyz'')], polled = None\<rparr>,
               \<lparr>elapsed = 2 / 100, ready = [(Stdout, Some []), (Stderr, Some [])], polled = Some 0\<rparr>],
      exits_in_grace = True, final = Some (0, 3 / 100), fs = (\<lambda>d. d)\<rparr>"

definition failed_read_proc :: proc where
  "failed_read_proc =
     \<lparr>spawn = Started,
      ticks = [\<lparr>elapsed = 0, ready = [(Stdout, None), (Stderr, Some [])], polled = None\<rparr>,
               \<lparr>elapsed = 1 / 100, ready = [(Stdout, Some ''abc'')], polled = Some 0\<rparr>],
      exits_in_grace = True, final = Some (0, 2 / 100), fs = (\<lambda>d. d)\<rparr>"

definition slow_proc :: proc where
  "slow_proc =
     \<lparr>spawn = Started,
      ticks = [\<lparr>elapsed = 1 / 100, ready = [], polled = None\<rparr>],
      exits_in_grace = True, final = Some (0, 1), fs = (\<lambda>d. d)\<rparr>"

definition missing_proc :: proc where
  "missing_proc =
     \<lparr>spawn = FileNotFound, ticks = [], exits_in_grace = True, final = None, fs = (\<lambda>d. d)\<rparr>"

definition logging_proc :: proc where
  "logging_proc =
     \<lparr>spawn = Started,
      ticks = [\<lparr>elapsed = 0, ready = [(Stdout, Some []), (Stderr, Some [])], polled = Some 0\<rparr>],
      exits_in_grace = True, final = Some (0, 1 / 100),
      fs = (\<lambda>d. d @ [(''validate.log'', File ''Error: no such device'')])\<rparr>"

text \<open>
  An example platform around one child: the codec is the identity, no MIME type is known,
  and the Base64 text is left as the tagged content.
\<close>

definition example_platform :: "proc \<Rightarrow> platform" where
  "example_platform pr =
     \<lparr>child = (\<lambda>argv. pr), mkdtemp = ''/tmp/autosage_ngspice_0'',
      utf8_decode = (\<lambda>b. b), utf8_encode = (\<lambda>s. s), read_text = (\<lambda>b. b),
      guess_type = (\<lambda>nm. None), b64encode = (\<lambda>b. ''base64:'' @ b)\<rparr>"

text \<open>For version: \<open>ngspice -v\<close> fails with exit code 1 and \<open>ngspice -V\<close> succeeds.\<close>

definition fallback_platform :: platform where
  "fallback_platform =
     \<lparr>child = (\<lambda>argv. if argv = [''ngspice'', ''-v''] then exiting_proc 1 else exiting_proc 0),
      mkdtemp = ''/tmp/autosage_ngspice_0'',
      utf8_decode = (\<lambda>b. b), utf8_encode = (\<lambda>s. s), read_text = (\<lambda>b. b),
      guess_type = (\<lambda>nm. None), b64encode = (\<lambda>b. ''base64:'' @ b)\<rparr>"

text \<open>For version: \<open>ngspice -v\<close> fails with exit code 1 and \<open>ngspice -V\<close> cannot be started.\<close>

definition retry_missing_platform :: platform where
  "retry_missing_platform =
     \<lparr>child = (\<lambda>argv. if argv = [''ngspice'', ''-v''] then exiting_proc 1 else missing_proc),
      mkdtemp = ''/tmp/autosage_ngspice_0'',
      utf8_decode = (\<lambda>b. b), utf8_encode = (\<lambda>s. s), read_text = (\<lambda>b. b),
      guess_type = (\<lambda>nm. None), b64encode = (\<lambda>b. ''base64:'' @ b)\<rparr>"

section \<open>The runner: caps, preconditions and the timeout\<close>

lemma nat_sub_len: "nat (m - int n) = nat m - n"
  by arith

text \<open>The timeouts of the examples are far below the range where the division overflows.\<close>

lemma below_float_overflow [simp]: "n \<le> 100000 \<Longrightarrow> \<not> float_overflow \<le> n"
  by (simp add: float_overflow_def)

lemma registered_minus [simp]:
  "{Stdout, Stderr} - {Stderr} = {Stdout}" "{Stdout, Stderr} - {Stdout} = {Stderr}"
  by auto

lemma bytes_read_append: "bytes_read c (xs @ ys) = bytes_read c xs @ bytes_read c ys"
  by (induction c xs rule: bytes_read.induct) auto

lemma feed_out:
  assumes "0 < mo" "capped mo got (stdout_buf st) (stdout_truncated st)"
    and "feed mo me st ev = (st', tr)"
  shows "capped mo (got @ bytes_read Stdout tr) (stdout_buf st') (stdout_truncated st')"
  using assms
  by (cases ev; cases "fst ev")
     (auto simp: feed_def capped_def Let_def nat_sub_len split: option.splits if_splits)

lemma feed_err:
  assumes "0 < me" "capped me got (stderr_buf st) (stderr_truncated st)"
    and "feed mo me st ev = (st', tr)"
  shows "capped me (got @ bytes_read Stderr tr) (stderr_buf st') (stderr_truncated st')"
  using assms
  by (cases ev; cases "fst ev")
     (auto simp: feed_def capped_def Let_def nat_sub_len split: option.splits if_splits)

lemma pump_out:
  assumes "0 < mo" "capped mo got (stdout_buf st) (stdout_truncated st)"
    and "pump mo me st evs = (st', tr)"
  shows "capped mo (got @ bytes_read Stdout tr) (stdout_buf st') (stdout_truncated st')"
  using assms
proof (induction evs arbitrary: st got tr st')
  case Nil
  then show ?case by simp
next
  case (Cons ev evs)
  obtain st1 tr1 where f: "feed mo me st ev = (st1, tr1)" by force
  obtain st2 tr2 where p: "pump mo me st1 evs = (st2, tr2)" by force
  from Cons.prems(3) f p have eq: "st' = st2" "tr = tr1 @ tr2" by auto
  from feed_out [OF Cons.prems(1,2) f]
  have "capped mo (got @ bytes_read Stdout tr1) (stdout_buf st1) (stdout_truncated st1)" .
  from Cons.IH [OF Cons.prems(1) this p] show ?case
    by (simp add: eq bytes_read_append)
qed

lemma pump_err:
  assumes "0 < me" "capped me got (stderr_buf st) (stderr_truncated st)"
    and "pump mo me st evs = (st', tr)"
  shows "capped me (got @ bytes_read Stderr tr) (stderr_buf st') (stderr_truncated st')"
  using assms
proof (induction evs arbitrary: st got tr st')
  case Nil
  then show ?case by simp
next
  case (Cons ev evs)
  obtain st1 tr1 where f: "feed mo me st ev = (st1, tr1)" by force
  obtain st2 tr2 where p: "pump mo me st1 evs = (st2, tr2)" by force
  from Cons.prems(3) f p have eq: "st' = st2" "tr = tr1 @ tr2" by auto
  from feed_err [OF Cons.prems(1,2) f]
  have "capped me (got @ bytes_read Stderr tr1) (stderr_buf st1) (stderr_truncated st1)" .
  from Cons.IH [OF Cons.prems(1) this p] show ?case
    by (simp add: eq bytes_read_append)
qed

text \<open>
  One iteration of the loop that neither times out nor ends it: what the recursive call
  starts from and how the trace is put together.
\<close>

lemma read_loop_step:
  assumes "read_loop ts mo me g st (tk # rest) = (tr, Finished st')"
    and "\<not> (registered st = {} \<or> (filter (\<lambda>ev. fst ev \<in> registered st) (ready tk) = [] \<and> polled tk \<noteq> None))"
    and "pump mo me st (filter (\<lambda>ev. fst ev \<in> registered st) (ready tk)) = (st1, tr1)"
  shows "\<exists>tr2. read_loop ts mo me g st1 rest = (tr2, Finished st')
           \<and> bytes_read c tr = bytes_read c tr1 @ bytes_read c tr2"
proof -
  obtain tr2 r where l: "read_loop ts mo me g st1 rest = (tr2, r)" by force
  from assms l have "r = Finished st'"
    and "tr = [Select (1 / 20)]
           @ (if filter (\<lambda>ev. fst ev \<in> registered st) (ready tk) = [] then [Poll] else []) @ tr1 @ tr2"
    by (auto split: if_splits)
  with l show ?thesis by (auto simp: bytes_read_append)
qed

lemma read_loop_stop:
  assumes "read_loop ts mo me g st (tk # rest) = (tr, Finished st')"
    and "registered st = {} \<or> (filter (\<lambda>ev. fst ev \<in> registered st) (ready tk) = [] \<and> polled tk \<noteq> None)"
  shows "st' = st \<and> bytes_read c tr = []"
  using assms by (auto split: if_splits)

lemma loop_out:
  assumes "0 < mo" "capped mo got (stdout_buf st) (stdout_truncated st)"
    and "read_loop ts mo me g st tks = (tr, Finished st')"
  shows "capped mo (got @ bytes_read Stdout tr) (stdout_buf st') (stdout_truncated st')"
  using assms
proof (induction tks arbitrary: st got tr)
  case Nil
  then show ?case by (auto split: if_splits)
next
  case (Cons tk rest)
  let ?evs = "filter (\<lambda>ev. fst ev \<in> registered st) (ready tk)"
  show ?case
  proof (cases "registered st = {} \<or> (?evs = [] \<and> polled tk \<noteq> None)")
    case True
    from read_loop_stop [OF Cons.prems(3) True, of Stdout] Cons.prems(2) show ?thesis by simp
  next
    case False
    obtain st1 tr1 where p: "pump mo me st ?evs = (st1, tr1)" by force
    from read_loop_step [OF Cons.prems(3) False p, of Stdout]
    obtain tr2 where l: "read_loop ts mo me g st1 rest = (tr2, Finished st')"
      and b: "bytes_read Stdout tr = bytes_read Stdout tr1 @ bytes_read Stdout tr2" by blast
    from pump_out [OF Cons.prems(1,2) p]
    have "capped mo (got @ bytes_read Stdout tr1) (stdout_buf st1) (stdout_truncated st1)" .
    from Cons.IH [OF Cons.prems(1) this l] show ?thesis by (simp add: b)
  qed
qed

lemma loop_err:
  assumes "0 < me" "capped me got (stderr_buf st) (stderr_truncated st)"
    and "read_loop ts mo me g st tks = (tr, Finished st')"
  shows "capped me (got @ bytes_read Stderr tr) (stderr_buf st') (stderr_truncated st')"
  using assms
proof (induction tks arbitrary: st got tr)
  case Nil
  then show ?case by (auto split: if_splits)
next
  case (Cons tk rest)
  let ?evs = "filter (\<lambda>ev. fst ev \<in> registered st) (ready tk)"
  show ?case
  proof (cases "registered st = {} \<or> (?evs = [] \<and> polled tk \<noteq> None)")
    case True
    from read_loop_stop [OF Cons.prems(3) True, of Stderr] Cons.prems(2) show ?thesis by simp
  next
    case False
    obtain st1 tr1 where p: "pump mo me st ?evs = (st1, tr1)" by force
    from read_loop_step [OF Cons.prems(3) False p, of Stderr]
    obtain tr2 where l: "read_loop ts mo me g st1 rest = (tr2, Finished st')"
      and b: "bytes_read Stderr tr = bytes_read Stderr tr1 @ bytes_read Stderr tr2" by blast
    from pump_err [OF Cons.prems(1,2) p]
    have "capped me (got @ bytes_read Stderr tr1) (stderr_buf st1) (stderr_truncated st1)" .
    from Cons.IH [OF Cons.prems(1) this l] show ?thesis by (simp add: b)
  qed
qed

text \<open>A truncation flag, once set, stays set: no step of the loop clears it.\<close>

lemma feed_flags:
  assumes "feed mo me st ev = (st', tr)"
  shows "(stdout_truncated st \<longrightarrow> stdout_truncated st') \<and> (stderr_truncated st \<longrightarrow> stderr_truncated st')"
  using assms by (auto simp: feed_def Let_def split: if_splits)

lemma pump_flags:
  assumes "pump mo me st evs = (st', tr)"
  shows "(stdout_truncated st \<longrightarrow> stdout_truncated st') \<and> (stderr_truncated st \<longrightarrow> stderr_truncated st')"
  using assms
proof (induction evs arbitrary: st tr st')
  case Nil
  then show ?case by simp
next
  case (Cons ev evs)
  obtain st1 tr1 where f: "feed mo me st ev = (st1, tr1)" by force
  obtain st2 tr2 where p: "pump mo me st1 evs = (st2, tr2)" by force
  from Cons.prems f p have eq: "st' = st2" by auto
  from feed_flags [OF f] Cons.IH [OF p] show ?case by (simp add: eq)
qed

lemma loop_flags:
  assumes "read_loop ts mo me g st tks = (tr, Finished st')"
  shows "(stdout_truncated st \<longrightarrow> stdout_truncated st') \<and> (stderr_truncated st \<longrightarrow> stderr_truncated st')"
  using assms
proof (induction tks arbitrary: st tr)
  case Nil
  then show ?case by (auto split: if_splits)
next
  case (Cons tk rest)
  let ?evs = "filter (\<lambda>ev. fst ev \<in> registered st) (ready tk)"
  show ?case
  proof (cases "registered st = {} \<or> (?evs = [] \<and> polled tk \<noteq> None)")
    case True
    from read_loop_stop [OF Cons.prems True, of Stdout] show ?thesis by simp
  next
    case False
    obtain st1 tr1 where p: "pump mo me st ?evs = (st1, tr1)" by force
    from read_loop_step [OF Cons.prems False p, of Stdout]
    obtain tr2 where l: "read_loop ts mo me g st1 rest = (tr2, Finished st')" by blast
    from pump_flags [OF p] Cons.IH [OF l] show ?thesis by simp
  qed
qed

text \<open>What a call that returns has gone through.\<close>

lemma run_process_returned:
  assumes "run_process P argv cwd t mo me = (tr, Returned (out, err, code, ms))"
  shows "\<exists>ltr st. 0 < ival mo \<and> 0 < ival me
           \<and> read_loop (of_int (ival t) / 1000) (ival mo) (ival me) (exits_in_grace (child P argv))
                rstate0 (ticks (child P argv)) = (ltr, Finished st)
           \<and> tr = [Invoke argv cwd t mo me, Popen argv cwd] @ ltr @ [Wait None]
           \<and> out = utf8_decode P (stdout_buf st)
                 @ (if stdout_truncated st then [CHR 0x0A] @ ''[stdout truncated]'' else [])
           \<and> err = utf8_decode P (stderr_buf st)
                 @ (if stderr_truncated st then [CHR 0x0A] @ ''[stderr truncated]'' else [])"
proof -
  obtain ltr r where l: "read_loop (of_int (ival t) / 1000) (ival mo) (ival me)
      (exits_in_grace (child P argv)) rstate0 (ticks (child P argv)) = (ltr, r)" by force
  from assms l show ?thesis
    by (auto simp: run_process_def Let_def
             split: if_splits spawn_result.splits loop_exit.splits option.splits prod.splits)
qed

text \<open>
  C5. A call with an empty argv, with timeout_ms <= 0, or with a byte cap <= 0 raises a
  RunnerError of type invalid_request, and nothing but the call itself has happened by
  then: no process was spawned.
\<close>

theorem run_process_preconditions:
  assumes "argv = [] \<or> ival t \<le> 0 \<or> ival mo \<le> 0 \<or> ival me \<le> 0"
  shows "\<exists>msg. run_process P argv cwd t mo me
           = ([Invoke argv cwd t mo me], Raised (RunnerError ''invalid_request'' msg []))"
  using assms by (auto simp: run_process_def Let_def)

theorem run_process_preconditions_witness:
  "([] = ([] :: string list) \<or> ival (PInt 100) \<le> 0 \<or> ival (PInt 10) \<le> 0 \<or> ival (PInt 10) \<le> 0)
   \<and> (\<exists>msg. run_process (example_platform (exiting_proc 0)) [] ''/tmp'' (PInt 100) (PInt 10) (PInt 10)
          = ([Invoke [] ''/tmp'' (PInt 100) (PInt 10) (PInt 10)],
             Raised (RunnerError ''invalid_request'' msg [])))"
proof -
  have h: "[] = ([] :: string list) \<or> ival (PInt 100) \<le> 0 \<or> ival (PInt 10) \<le> 0 \<or> ival (PInt 10) \<le> 0"
    by simp
  from h run_process_preconditions [OF h] show ?thesis by blast
qed

text \<open>
  What the reads of a call return is what the operating system answered: the trace of the
  loop holds the chunks of \<open>received\<close>, and a stream is unregistered by an empty or a
  failed read only.
\<close>

lemma feed_reads:
  "bytes_read c (snd (feed mo me st ev))
     = (if fst ev = c then (case snd ev of None \<Rightarrow> [] | Some b \<Rightarrow> b) else [])"
  by (simp add: feed_def Let_def split: option.splits)

lemma feed_registered:
  "registered (fst (feed mo me st ev))
     = (if snd ev = None \<or> snd ev = Some [] then registered st - {fst ev} else registered st)"
  by (simp add: feed_def Let_def split: option.splits)

lemma pump_reads:
  "bytes_read c (snd (pump mo me st evs))
     = concat (map (\<lambda>ev. case snd ev of None \<Rightarrow> [] | Some b \<Rightarrow> b) (filter (\<lambda>ev. fst ev = c) evs))"
  by (induction evs arbitrary: st) (simp_all add: split_beta Let_def bytes_read_append feed_reads)

lemma pump_registered:
  "registered (fst (pump mo me st evs))
     = registered st - set (map fst (filter (\<lambda>ev. snd ev = None \<or> snd ev = Some []) evs))"
proof (induction evs arbitrary: st)
  case Nil
  then show ?case by simp
next
  case (Cons ev evs)
  show ?case
    by (simp add: split_beta Let_def Cons.IH feed_registered) blast
qed

lemma loop_reads:
  "bytes_read c (fst (read_loop ts mo me g st tks)) = received c ts (registered st) tks"
proof (induction tks arbitrary: st)
  case Nil
  then show ?case by simp
next
  case (Cons tk rest)
  let ?evs = "filter (\<lambda>ev. fst ev \<in> registered st) (ready tk)"
  show ?case
  proof (cases "registered st = {} \<or> ts \<le> elapsed tk \<or> (?evs = [] \<and> polled tk \<noteq> None)")
    case True
    then show ?thesis by (auto simp: Let_def)
  next
    case False
    obtain st1 tr1 where p: "pump mo me st ?evs = (st1, tr1)" by force
    obtain tr2 r where l: "read_loop ts mo me g st1 rest = (tr2, r)" by force
    from pump_reads [of c mo me st ?evs] p
    have r1: "bytes_read c tr1
        = concat (map (\<lambda>ev. case snd ev of None \<Rightarrow> [] | Some b \<Rightarrow> b) (filter (\<lambda>ev. fst ev = c) ?evs))"
      by simp
    from pump_registered [of mo me st ?evs] p
    have r2: "registered st1
        = registered st - set (map fst (filter (\<lambda>ev. snd ev = None \<or> snd ev = Some []) ?evs))"
      by simp
    from Cons.IH [of st1] l
    have r3: "bytes_read c tr2 = received c ts (registered st1) rest" by simp
    have "fst (read_loop ts mo me g st (tk # rest))
        = [Select (1 / 20)] @ (if ?evs = [] then [Poll] else []) @ tr1 @ tr2"
      using False p l by (auto simp: Let_def)
    then have "bytes_read c (fst (read_loop ts mo me g st (tk # rest)))
        = bytes_read c tr1 @ bytes_read c tr2"
      by (simp add: bytes_read_append)
    moreover have "received c ts (registered st) (tk # rest)
        = concat (map (\<lambda>ev. case snd ev of None \<Rightarrow> [] | Some b \<Rightarrow> b) (filter (\<lambda>ev. fst ev = c) ?evs))
          @ received c ts (registered st1) rest"
      using False unfolding r2 by (auto simp: Let_def)
    ultimately show ?thesis by (simp add: r1 r3)
  qed
qed

text \<open>The buffers and the flags of a call that returns, by the invariant of the loop.\<close>

lemma run_process_capped:
  assumes "run_process P argv cwd t mo me = (tr, Returned (out, err, code, ms))"
  shows "out = utf8_decode P (take (nat (ival mo)) (bytes_read Stdout tr))
               @ (if int (length (bytes_read Stdout tr)) > ival mo
                  then [CHR 0x0A] @ ''[stdout truncated]'' else [])"
    and "err = utf8_decode P (take (nat (ival me)) (bytes_read Stderr tr))
               @ (if int (length (bytes_read Stderr tr)) > ival me
                  then [CHR 0x0A] @ ''[stderr truncated]'' else [])"
    and "bytes_read c tr = received c (of_int (ival t) / 1000) {Stdout, Stderr} (ticks (child P argv))"
proof -
  from run_process_returned [OF assms] obtain ltr st where
    pos: "0 < ival mo" "0 < ival me"
    and l: "read_loop (of_int (ival t) / 1000) (ival mo) (ival me) (exits_in_grace (child P argv))
              rstate0 (ticks (child P argv)) = (ltr, Finished st)"
    and tr: "tr = [Invoke argv cwd t mo me, Popen argv cwd] @ ltr @ [Wait None]"
    and out: "out = utf8_decode P (stdout_buf st)
                @ (if stdout_truncated st then [CHR 0x0A] @ ''[stdout truncated]'' else [])"
    and err: "err = utf8_decode P (stderr_buf st)
                @ (if stderr_truncated st then [CHR 0x0A] @ ''[stderr truncated]'' else [])"
    by blast
  have b: "bytes_read c tr = bytes_read c ltr" for c
    by (simp add: tr bytes_read_append)
  have "capped (ival mo) [] (stdout_buf rstate0) (stdout_truncated rstate0)"
    using pos by (simp add: capped_def rstate0_def)
  from loop_out [OF pos(1) this l]
  have o: "stdout_buf st = take (nat (ival mo)) (bytes_read Stdout tr)"
    "stdout_truncated st = (int (length (bytes_read Stdout tr)) > ival mo)"
    by (simp_all add: capped_def b)
  have "capped (ival me) [] (stderr_buf rstate0) (stderr_truncated rstate0)"
    using pos by (simp add: capped_def rstate0_def)
  from loop_err [OF pos(2) this l]
  have e: "stderr_buf st = take (nat (ival me)) (bytes_read Stderr tr)"
    "stderr_truncated st = (int (length (bytes_read Stderr tr)) > ival me)"
    by (simp_all add: capped_def b)
  show "out = utf8_decode P (take (nat (ival mo)) (bytes_read Stdout tr))
               @ (if int (length (bytes_read Stdout tr)) > ival mo
                  then [CHR 0x0A] @ ''[stdout truncated]'' else [])"
    using out o by simp
  show "err = utf8_decode P (take (nat (ival me)) (bytes_read Stderr tr))
               @ (if int (length (bytes_read Stderr tr)) > ival me
                  then [CHR 0x0A] @ ''[stderr truncated]'' else [])"
    using err e by simp
  from loop_reads [of c "of_int (ival t) / 1000" "ival mo" "ival me" "exits_in_grace (child P argv)"
      rstate0 "ticks (child P argv)"] l
  show "bytes_read c tr = received c (of_int (ival t) / 1000) {Stdout, Stderr} (ticks (child P argv))"
    by (simp add: b rstate0_def)
qed

text \<open>
  C4, as the claim states it, fails: what is captured is cut from the bytes the reads
  returned, not from the bytes the child wrote. The child \<open>failed_read_proc\<close> writes the
  three bytes \<open>abc\<close> to stdout; the first read of stdout fails with \<open>OSError\<close>, which the
  loop takes for the end of the stream (lines 83-90). Under a cap of 2 bytes the call
  returns an empty stdout text with no marker.
\<close>

theorem run_process_unread_output_counterexample:
  "emitted Stdout (ticks (child (example_platform failed_read_proc) [''writer''])) = ''abc''
   \<and> run_process (example_platform failed_read_proc) [''writer''] ''/tmp'' (PInt 1000) (PInt 2) (PInt 2)
     = ([Invoke [''writer''] ''/tmp'' (PInt 1000) (PInt 2) (PInt 2), Popen [''writer''] ''/tmp'',
         Select (1 / 20), Read Stdout [], Unregister Stdout, Read Stderr [], Unregister Stderr,
         Wait None],
        Returned ([], [], 0, 20))"
  by (simp add: emitted_def run_process_def example_platform_def failed_read_proc_def rstate0_def
        feed_def trunc_def Let_def)

text \<open>
  C4, amended. Let D be the bytes that the reads of stdout returned during a call that
  returns, a stream being read until a read returns nothing or fails, or until the loop
  ends. With max_stdout_bytes = N, the captured content is the first N bytes of D, and the
  text is its decoding, followed by the marker \<open>[stdout truncated]\<close> on a new line when D
  is longer than N, and by nothing when it is not. The same holds of stderr, with
  max_stderr_bytes and \<open>[stderr truncated]\<close>. In particular, when the reads returned all
  that the child wrote to the stream, the captured content is the first N bytes the child
  wrote. A truncation flag that is set at some iteration of the loop is still set when the
  loop ends.
\<close>

theorem run_process_truncation:
  assumes "run_process P argv cwd t mo me = (tr, Returned (out, err, code, ms))"
  shows "out = utf8_decode P
                 (take (nat (ival mo))
                    (received Stdout (of_int (ival t) / 1000) {Stdout, Stderr} (ticks (child P argv))))
               @ (if int (length (received Stdout (of_int (ival t) / 1000) {Stdout, Stderr}
                                    (ticks (child P argv)))) > ival mo
                  then [CHR 0x0A] @ ''[stdout truncated]'' else [])
       \<and> err = utf8_decode P
                 (take (nat (ival me))
                    (received Stderr (of_int (ival t) / 1000) {Stdout, Stderr} (ticks (child P argv))))
               @ (if int (length (received Stderr (of_int (ival t) / 1000) {Stdout, Stderr}
                                    (ticks (child P argv)))) > ival me
                  then [CHR 0x0A] @ ''[stderr truncated]'' else [])
       \<and> bytes_read Stdout tr
           = received Stdout (of_int (ival t) / 1000) {Stdout, Stderr} (ticks (child P argv))
       \<and> bytes_read Stderr tr
           = received Stderr (of_int (ival t) / 1000) {Stdout, Stderr} (ticks (child P argv))
       \<and> (received Stdout (of_int (ival t) / 1000) {Stdout, Stderr} (ticks (child P argv))
            = emitted Stdout (ticks (child P argv))
          \<longrightarrow> out = utf8_decode P (take (nat (ival mo)) (emitted Stdout (ticks (child P argv))))
                     @ (if int (length (emitted Stdout (ticks (child P argv)))) > ival mo
                        then [CHR 0x0A] @ ''[stdout truncated]'' else []))
       \<and> (received Stderr (of_int (ival t) / 1000) {Stdout, Stderr} (ticks (child P argv))
            = emitted Stderr (ticks (child P argv))
          \<longrightarrow> err = utf8_decode P (take (nat (ival me)) (emitted Stderr (ticks (child P argv))))
                     @ (if int (length (emitted Stderr (ticks (child P argv)))) > ival me
                        then [CHR 0x0A] @ ''[stderr truncated]'' else []))
       \<and> (\<forall>ts a b g st tks ltr st'. read_loop ts a b g st tks = (ltr, Finished st')
            \<longrightarrow> (stdout_truncated st \<longrightarrow> stdout_truncated st')
              \<and> (stderr_truncated st \<longrightarrow> stderr_truncated st'))"
proof -
  note c = run_process_capped [OF assms]
  have "\<forall>ts a b g st tks ltr st'. read_loop ts a b g st tks = (ltr, Finished st')
            \<longrightarrow> (stdout_truncated st \<longrightarrow> stdout_truncated st')
              \<and> (stderr_truncated st \<longrightarrow> stderr_truncated st')"
    using loop_flags by blast
  with c(1) c(2) c(3) [of Stdout] c(3) [of Stderr] show ?thesis by auto
qed

lemma chatty_run:
  "run_process (example_platform chatty_proc) [''x''] ''/tmp'' (PInt 100) (PInt 4) (PInt 2)
   = ([Invoke [''x''] ''/tmp'' (PInt 100) (PInt 4) (PInt 2), Popen [''x''] ''/tmp'',
       Select (1 / 20), Read Stdout ''abc'', Select (1 / 20), Read Stdout ''de'', Read Stderr ''xyz'',
       Select (1 / 20), Read Stdout [], Unregister Stdout, Read Stderr [], Unregister Stderr,
       Wait None],
      Returned (''abcd'' @ [CHR 0x0A] @ ''[stdout truncated]'',
                ''xy'' @ [CHR 0x0A] @ ''[stderr truncated]'', 0, 30))"
  by (simp add: run_process_def example_platform_def chatty_proc_def rstate0_def feed_def trunc_def Let_def)

lemma chatty_received:
  "received Stdout (of_int (ival (PInt 100)) / 1000) {Stdout, Stderr}
     (ticks (child (example_platform chatty_proc) [''x''])) = ''abcde''"
  "received Stderr (of_int (ival (PInt 100)) / 1000) {Stdout, Stderr}
     (ticks (child (example_platform chatty_proc) [''x''])) = ''xyz''"
  by (auto simp: example_platform_def chatty_proc_def Let_def)

lemma chatty_emitted:
  "emitted Stdout (ticks (child (example_platform chatty_proc) [''x''])) = ''abcde''"
  "emitted Stderr (ticks (child (example_platform chatty_proc) [''x''])) = ''xyz''"
  by (simp_all add: emitted_def example_platform_def chatty_proc_def)

theorem run_process_truncation_witness:
  "run_process (example_platform chatty_proc) [''x''] ''/tmp'' (PInt 100) (PInt 4) (PInt 2)
   = ([Invoke [''x''] ''/tmp'' (PInt 100) (PInt 4) (PInt 2), Popen [''x''] ''/tmp'',
       Select (1 / 20), Read Stdout ''abc'', Select (1 / 20), Read Stdout ''de'', Read Stderr ''xyz'',
       Select (1 / 20), Read Stdout [], Unregister Stdout, Read Stderr [], Unregister Stderr,
       Wait None],
      Returned (''abcd'' @ [CHR 0x0A] @ ''[stdout truncated]'',
                ''xy'' @ [CHR 0x0A] @ ''[stderr truncated]'', 0, 30))
   \<and> received Stdout (of_int (ival (PInt 100)) / 1000) {Stdout, Stderr}
       (ticks (child (example_platform chatty_proc) [''x''])) = ''abcde''
   \<and> received Stderr (of_int (ival (PInt 100)) / 1000) {Stdout, Stderr}
       (ticks (child (example_platform chatty_proc) [''x''])) = ''xyz''
   \<and> emitted Stdout (ticks (child (example_platform chatty_proc) [''x''])) = ''abcde''
   \<and> emitted Stderr (ticks (child (example_platform chatty_proc) [''x''])) = ''xyz''
   \<and> ''abcd'' @ [CHR 0x0A] @ ''[stdout truncated]''
       = utf8_decode (example_platform chatty_proc) (take (nat (ival (PInt 4))) ''abcde'')
         @ (if int (length ''abcde'') > ival (PInt 4) then [CHR 0x0A] @ ''[stdout truncated]'' else [])
   \<and> ''xy'' @ [CHR 0x0A] @ ''[stderr truncated]''
       = utf8_decode (example_platform chatty_proc) (take (nat (ival (PInt 2))) ''xyz'')
         @ (if int (length ''xyz'') > ival (PInt 2) then [CHR 0x0A] @ ''[stderr truncated]'' else [])"
proof -
  note t = run_process_truncation [OF chatty_run]
  from t [THEN conjunct1]
  have o: "''abcd'' @ [CHR 0x0A] @ ''[stdout truncated]''
       = utf8_decode (example_platform chatty_proc) (take (nat (ival (PInt 4))) ''abcde'')
         @ (if int (length ''abcde'') > ival (PInt 4) then [CHR 0x0A] @ ''[stdout truncated]'' else [])"
    unfolding chatty_received .
  have h: "received Stderr (of_int (ival (PInt 100)) / 1000) {Stdout, Stderr}
       (ticks (child (example_platform chatty_proc) [''x'']))
     = emitted Stderr (ticks (child (example_platform chatty_proc) [''x'']))"
    by (simp only: chatty_received chatty_emitted)
  from t [THEN conjunct2, THEN conjunct2, THEN conjunct2, THEN conjunct2, THEN conjunct2,
      THEN conjunct1, rule_format, OF h]
  have e: "''xy'' @ [CHR 0x0A] @ ''[stderr truncated]''
       = utf8_decode (example_platform chatty_proc) (take (nat (ival (PInt 2))) ''xyz'')
         @ (if int (length ''xyz'') > ival (PInt 2) then [CHR 0x0A] @ ''[stderr truncated]'' else [])"
    unfolding chatty_emitted .
  from chatty_run chatty_received chatty_emitted o e show ?thesis by blast
qed

text \<open>
  C1. The timeout is checked at the top of the loop only, and the loop runs only while a
  stream is registered. A child that closes both streams at once and runs on for 60 seconds
  is never terminated under a timeout of 100 ms: the loop ends after its first iteration,
  \<open>process.wait()\<close> is called without a timeout, and the call returns normally after
  60000 ms.
\<close>

theorem run_process_detached_child:
  "run_process (example_platform detached_proc) [''sleeper''] ''/tmp'' (PInt 100) (PInt 1000) (PInt 1000)
   = ([Invoke [''sleeper''] ''/tmp'' (PInt 100) (PInt 1000) (PInt 1000), Popen [''sleeper''] ''/tmp'',
       Select (1 / 20), Read Stdout [], Unregister Stdout, Read Stderr [], Unregister Stderr,
       Wait None],
      Returned ([], [], 0, 60000))"
  by (simp add: run_process_def example_platform_def detached_proc_def rstate0_def feed_def trunc_def Let_def)

section \<open>The adapter: limits and envelopes\<close>

lemma override_cases:
  "override d key dflt =
     (case map_of d key of Some (JInt n) \<Rightarrow> PInt n | Some (JBool b) \<Rightarrow> PBool b | _ \<Rightarrow> dflt)"
  by (simp add: override_def split: option.splits json.splits)

lemma override_empty: "override [] key dflt = dflt"
  by (simp add: override_def)

lemma build_limits_fields:
  "timeout_ms (build_limits (Some d)) = override d ''timeout_ms'' (PInt 10000)"
  "max_stdout_bytes (build_limits (Some d)) = override d ''max_stdout_bytes'' (PInt 1000000)"
  "max_stderr_bytes (build_limits (Some d)) = override d ''max_stderr_bytes'' (PInt 1000000)"
  "max_file_bytes (build_limits (Some d)) = override d ''max_file_bytes'' (PInt 10000000)"
  by (simp_all add: build_limits_def DEFAULT_LIMITS_def override_empty)

text \<open>
  The merge as the code performs it: an override counts when its value passes
  \<open>isinstance(v, int)\<close>, that is, when it is an integer or a boolean; keys other than the
  four have no effect.
\<close>

lemma build_limits_merge:
  "build_limits None = \<lparr>timeout_ms = PInt 10000, max_stdout_bytes = PInt 1000000,
                         max_stderr_bytes = PInt 1000000, max_file_bytes = PInt 10000000\<rparr>
   \<and> timeout_ms (build_limits (Some d))
       = (case map_of d ''timeout_ms'' of
            Some (JInt n) \<Rightarrow> PInt n | Some (JBool b) \<Rightarrow> PBool b | _ \<Rightarrow> PInt 10000)
   \<and> max_stdout_bytes (build_limits (Some d))
       = (case map_of d ''max_stdout_bytes'' of
            Some (JInt n) \<Rightarrow> PInt n | Some (JBool b) \<Rightarrow> PBool b | _ \<Rightarrow> PInt 1000000)
   \<and> max_stderr_bytes (build_limits (Some d))
       = (case map_of d ''max_stderr_bytes'' of
            Some (JInt n) \<Rightarrow> PInt n | Some (JBool b) \<Rightarrow> PBool b | _ \<Rightarrow> PInt 1000000)
   \<and> max_file_bytes (build_limits (Some d))
       = (case map_of d ''max_file_bytes'' of
            Some (JInt n) \<Rightarrow> PInt n | Some (JBool b) \<Rightarrow> PBool b | _ \<Rightarrow> PInt 10000000)
   \<and> ((\<forall>k \<in> {''timeout_ms'', ''max_stdout_bytes'', ''max_stderr_bytes'', ''max_file_bytes''}.
          map_of d k = map_of d' k)
        \<longrightarrow> build_limits (Some d) = build_limits (Some d'))"
proof -
  have "build_limits None = \<lparr>timeout_ms = PInt 10000, max_stdout_bytes = PInt 1000000,
                         max_stderr_bytes = PInt 1000000, max_file_bytes = PInt 10000000\<rparr>"
    by (simp add: build_limits_def DEFAULT_LIMITS_def)
  moreover have "(\<forall>k \<in> {''timeout_ms'', ''max_stdout_bytes'', ''max_stderr_bytes'', ''max_file_bytes''}.
          map_of d k = map_of d' k)
        \<longrightarrow> build_limits (Some d) = build_limits (Some d')"
  proof
    assume a: "\<forall>k \<in> {''timeout_ms'', ''max_stdout_bytes'', ''max_stderr_bytes'', ''max_file_bytes''}.
          map_of d k = map_of d' k"
    have "override d k x = override d' k x"
      if "k \<in> {''timeout_ms'', ''max_stdout_bytes'', ''max_stderr_bytes'', ''max_file_bytes''}" for k x
      using a that unfolding override_def by metis
    then have "timeout_ms (build_limits (Some d)) = timeout_ms (build_limits (Some d'))"
      "max_stdout_bytes (build_limits (Some d)) = max_stdout_bytes (build_limits (Some d'))"
      "max_stderr_bytes (build_limits (Some d)) = max_stderr_bytes (build_limits (Some d'))"
      "max_file_bytes (build_limits (Some d)) = max_file_bytes (build_limits (Some d'))"
      by (simp_all add: build_limits_fields)
    then show "build_limits (Some d) = build_limits (Some d')"
      by (intro limits.equality) simp_all
  qed
  ultimately show ?thesis
    by (simp add: build_limits_fields override_cases)
qed

text \<open>
  C8. The merge is written to let integer values through and nothing else (line 26), but
  \<open>isinstance(v, int)\<close> holds of \<open>True\<close> and \<open>False\<close> as well, \<open>bool\<close> being a subclass of
  \<open>int\<close>. The override \<open>{"timeout_ms": true}\<close>, whose value is not an integer, replaces the
  default 10000. version then calls the runner with the timeout \<open>True\<close>, which counts as
  1 ms: a child that is still starting up 10 ms after the call is terminated, and the
  message of the error reads \<open>Process exceeded timeout of True ms.\<close>
\<close>

theorem build_limits_accepts_boolean:
  "timeout_ms (build_limits None) = PInt 10000
   \<and> timeout_ms (build_limits (Some [(''timeout_ms'', JBool True)])) = PBool True
   \<and> version (example_platform slow_proc) (Some [(''timeout_ms'', JBool True)])
     = ([Invoke [''ngspice'', ''-v''] ''/tmp/autosage_ngspice_0'' (PBool True) (PInt 1000000) (PInt 1000000),
         Popen [''ngspice'', ''-v''] ''/tmp/autosage_ngspice_0'', Terminate, Wait (Some (1 / 2))],
        Returned \<lparr>ok = False, stdout = [], stderr = [], files = [],
                   metrics = \<lparr>elapsed_ms = 0, exit_code = - 1\<rparr>,
                   error = Some \<lparr>type = ''timeout'',
                                  message = ''Process exceeded timeout of True ms.'',
                                  details = [(''timeout_ms'', JBool True)]\<rparr>\<rparr>)"
  by (simp add: build_limits_def DEFAULT_LIMITS_def override_def version_def run_process_def
        example_platform_def slow_proc_def rstate0_def error_response_def Let_def)

text \<open>The runner's guards, for use by the adapter's proofs.\<close>

lemma run_process_guard:
  assumes "ival t \<le> 0 \<or> ival mo \<le> 0 \<or> ival me \<le> 0"
  shows "\<exists>msg. run_process P argv cwd t mo me
           = ([Invoke argv cwd t mo me], Raised (RunnerError ''invalid_request'' msg []))"
  using assms by (auto simp: run_process_def Let_def)

lemma nonpositive_limit:
  assumes "k \<in> {''timeout_ms'', ''max_stdout_bytes'', ''max_stderr_bytes''}"
    and "map_of d k = Some (JInt n)" and "n \<le> 0"
  shows "ival (timeout_ms (build_limits (Some d))) \<le> 0
       \<or> ival (max_stdout_bytes (build_limits (Some d))) \<le> 0
       \<or> ival (max_stderr_bytes (build_limits (Some d))) \<le> 0"
  using assms by (auto simp: build_limits_fields override_def)

lemma version_guarded:
  assumes "ival (timeout_ms (build_limits ls)) \<le> 0 \<or> ival (max_stdout_bytes (build_limits ls)) \<le> 0
             \<or> ival (max_stderr_bytes (build_limits ls)) \<le> 0"
  shows "\<exists>msg. version P ls
           = ([Invoke [''ngspice'', ''-v''] (mkdtemp P) (timeout_ms (build_limits ls))
                 (max_stdout_bytes (build_limits ls)) (max_stderr_bytes (build_limits ls))],
              Returned (error_response ''invalid_request'' msg []))"
proof -
  from run_process_guard [OF assms] obtain msg where
    "run_process P [''ngspice'', ''-v''] (mkdtemp P) (timeout_ms (build_limits ls))
         (max_stdout_bytes (build_limits ls)) (max_stderr_bytes (build_limits ls))
       = ([Invoke [''ngspice'', ''-v''] (mkdtemp P) (timeout_ms (build_limits ls))
             (max_stdout_bytes (build_limits ls)) (max_stderr_bytes (build_limits ls))],
          Raised (RunnerError ''invalid_request'' msg []))" by blast
  then show ?thesis by (auto simp: version_def Let_def)
qed

lemma smoketest_guarded:
  assumes "ival (timeout_ms (build_limits ls)) \<le> 0 \<or> ival (max_stdout_bytes (build_limits ls)) \<le> 0
             \<or> ival (max_stderr_bytes (build_limits ls)) \<le> 0"
  shows "\<exists>msg. smoketest P ls
           = ([Invoke [''ngspice'', ''-b'', ''-r'', ''smoke.raw'', ''-o'', ''smoke.log'', ''smoke.cir'']
                 (mkdtemp P) (timeout_ms (build_limits ls))
                 (max_stdout_bytes (build_limits ls)) (max_stderr_bytes (build_limits ls))],
              Returned (error_response ''invalid_request'' msg []))"
proof -
  from run_process_guard [OF assms] obtain msg where
    "run_process P [''ngspice'', ''-b'', ''-r'', ''smoke.raw'', ''-o'', ''smoke.log'', ''smoke.cir'']
         (mkdtemp P) (timeout_ms (build_limits ls))
         (max_stdout_bytes (build_limits ls)) (max_stderr_bytes (build_limits ls))
       = ([Invoke [''ngspice'', ''-b'', ''-r'', ''smoke.raw'', ''-o'', ''smoke.log'', ''smoke.cir'']
             (mkdtemp P) (timeout_ms (build_limits ls))
             (max_stdout_bytes (build_limits ls)) (max_stderr_bytes (build_limits ls))],
          Raised (RunnerError ''invalid_request'' msg []))" by blast
  then show ?thesis by (auto simp: smoketest_def Let_def)
qed

lemma validate_guarded:
  assumes "ival (timeout_ms (build_limits ls)) \<le> 0 \<or> ival (max_stdout_bytes (build_limits ls)) \<le> 0
             \<or> ival (max_stderr_bytes (build_limits ls)) \<le> 0"
    and "strip txt \<noteq> []"
  shows "\<exists>msg. validate_netlist P (JStr txt) ls
           = ([Invoke [''ngspice'', ''-b'', ''-o'', ''validate.log'', ''input.cir'']
                 (mkdtemp P) (timeout_ms (build_limits ls))
                 (max_stdout_bytes (build_limits ls)) (max_stderr_bytes (build_limits ls))],
              Returned (error_response ''invalid_request'' msg []))"
proof -
  from run_process_guard [OF assms(1)] obtain msg where
    "run_process P [''ngspice'', ''-b'', ''-o'', ''validate.log'', ''input.cir'']
         (mkdtemp P) (timeout_ms (build_limits ls))
         (max_stdout_bytes (build_limits ls)) (max_stderr_bytes (build_limits ls))
       = ([Invoke [''ngspice'', ''-b'', ''-o'', ''validate.log'', ''input.cir'']
             (mkdtemp P) (timeout_ms (build_limits ls))
             (max_stdout_bytes (build_limits ls)) (max_stderr_bytes (build_limits ls))],
          Raised (RunnerError ''invalid_request'' msg []))" by blast
  with assms(2) show ?thesis by (auto simp: validate_netlist_def Let_def)
qed

lemma error_response_fields:
  "\<not> ok (error_response t m d)" "stdout (error_response t m d) = []"
  "stderr (error_response t m d) = []" "files (error_response t m d) = []"
  "metrics (error_response t m d) = \<lparr>elapsed_ms = 0, exit_code = - 1\<rparr>"
  "error (error_response t m d) = Some \<lparr>type = t, message = m, details = d\<rparr>"
  by (simp_all add: error_response_def)

text \<open>
  Non-positive limits in version, in smoketest, and in validate_netlist on a netlist that is
  not blank and that UTF-8 can encode, as every \<open>JStr\<close> is: a non-positive integer given
  for timeout_ms, max_stdout_bytes or max_stderr_bytes passes the merge and fails the
  runner's guard, the failure envelope has the error type invalid_request, elapsed_ms 0
  and exit_code -1, and no process was spawned.
\<close>

lemma nonpositive_limits_rejected:
  assumes "k \<in> {''timeout_ms'', ''max_stdout_bytes'', ''max_stderr_bytes''}"
    and "map_of d k = Some (JInt n)" and "n \<le> 0" and "strip txt \<noteq> []"
  shows "\<forall>res \<in> {version P (Some d), smoketest P (Some d), validate_netlist P (JStr txt) (Some d)}.
           \<exists>r. snd res = Returned r \<and> \<not> list_ex is_popen (fst res)
             \<and> \<not> ok r \<and> map_option type (error r) = Some ''invalid_request''
             \<and> metrics r = \<lparr>elapsed_ms = 0, exit_code = - 1\<rparr>"
proof -
  note g = nonpositive_limit [OF assms(1-3)]
  from version_guarded [OF g, of P] smoketest_guarded [OF g, of P]
    validate_guarded [OF g assms(4), of P]
  show ?thesis by (auto simp: error_response_fields)
qed

text \<open>
  C10. validate_netlist writes the netlist to \<open>input.cir\<close> before its \<open>try\<close> (line 173).
  A netlist that holds a lone surrogate is a string and is not blank, yet \<open>write_text\<close>
  cannot encode it: under the limits \<open>{"timeout_ms": 0}\<close> the call raises
  \<open>UnicodeEncodeError\<close> and returns no envelope, where the netlist \<open>R1 a b 1k\<close> under the
  same limits gets the invalid_request envelope.
\<close>

theorem validate_netlist_unencodable_netlist:
  "validate_netlist (example_platform (exiting_proc 0)) JSurrogateStr (Some [(''timeout_ms'', JInt 0)])
     = ([], Raised UnicodeEncodeError)
   \<and> validate_netlist (example_platform (exiting_proc 0)) (JStr ''R1 a b 1k'')
       (Some [(''timeout_ms'', JInt 0)])
     = ([Invoke [''ngspice'', ''-b'', ''-o'', ''validate.log'', ''input.cir''] ''/tmp/autosage_ngspice_0''
           (PInt 0) (PInt 1000000) (PInt 1000000)],
        Returned \<lparr>ok = False, stdout = [], stderr = [], files = [],
                   metrics = \<lparr>elapsed_ms = 0, exit_code = - 1\<rparr>,
                   error = Some \<lparr>type = ''invalid_request'', message = ''timeout_ms must be > 0.'',
                                  details = []\<rparr>\<rparr>)"
  by (simp add: validate_netlist_def strip_def isspace_def build_limits_def override_def
        DEFAULT_LIMITS_def run_process_def error_response_def example_platform_def Let_def)

section \<open>Example runs\<close>

lemma started_run:
  assumes "argv \<noteq> []" "spawn (child P argv) = Started"
    and "ticks (child P argv) = [\<lparr>elapsed = 0, ready = [(Stdout, Some []), (Stderr, Some [])], polled = pl\<rparr>]"
    and "final (child P argv) = Some (code, 1 / 100)"
  shows "run_process P argv cwd (PInt 10000) (PInt 1000000) (PInt 1000000)
   = ([Invoke argv cwd (PInt 10000) (PInt 1000000) (PInt 1000000), Popen argv cwd,
          Select (1 / 20), Read Stdout [], Unregister Stdout, Read Stderr [], Unregister Stderr, Wait None],
         Returned (utf8_decode P [], utf8_decode P [], code, 10))"
  using assms by (simp add: run_process_def rstate0_def feed_def trunc_def Let_def)

lemma missing_run:
  assumes "argv \<noteq> []" "spawn (child P argv) = FileNotFound"
  shows "run_process P argv cwd (PInt 10000) (PInt 1000000) (PInt 1000000)
   = ([Invoke argv cwd (PInt 10000) (PInt 1000000) (PInt 1000000), Popen argv cwd],
      Raised (RunnerError ''process_not_found'' (''Executable not found: '' @ hd argv)
                [(''argv0'', JStr (hd argv))]))"
  using assms by (simp add: run_process_def Let_def)

lemma default_limits:
  "build_limits None = DEFAULT_LIMITS" "build_limits (Some []) = DEFAULT_LIMITS"
  "timeout_ms DEFAULT_LIMITS = PInt 10000" "max_stdout_bytes DEFAULT_LIMITS = PInt 1000000"
  "max_stderr_bytes DEFAULT_LIMITS = PInt 1000000" "max_file_bytes DEFAULT_LIMITS = PInt 10000000"
  by (simp_all add: build_limits_def DEFAULT_LIMITS_def)

lemma example_fields:
  "child (example_platform pr) argv = pr" "mkdtemp (example_platform pr) = ''/tmp/autosage_ngspice_0''"
  "utf8_decode (example_platform pr) b = b" "utf8_encode (example_platform pr) s = s"
  "guess_type (example_platform pr) nm = None" "b64encode (example_platform pr) b = ''base64:'' @ b"
  "read_text (example_platform pr) b = b"
  by (simp_all add: example_platform_def)

lemma fallback_fields:
  "child fallback_platform [''ngspice'', ''-v''] = exiting_proc 1"
  "child fallback_platform [''ngspice'', ''-V''] = exiting_proc 0"
  "mkdtemp fallback_platform = ''/tmp/autosage_ngspice_0''"
  "utf8_decode fallback_platform b = b"
  by (simp_all add: fallback_platform_def)

lemma fallback_first:
  "run_process fallback_platform [''ngspice'', ''-v''] cwd (PInt 10000) (PInt 1000000) (PInt 1000000)
   = ([Invoke [''ngspice'', ''-v''] cwd (PInt 10000) (PInt 1000000) (PInt 1000000), Popen [''ngspice'', ''-v''] cwd,
          Select (1 / 20), Read Stdout [], Unregister Stdout, Read Stderr [], Unregister Stderr, Wait None],
         Returned ([], [], 1, 10))"
  by (simp add: started_run [where pl = "Some 1"] fallback_fields exiting_proc_def)

lemma fallback_second:
  "run_process fallback_platform [''ngspice'', ''-V''] cwd (PInt 10000) (PInt 1000000) (PInt 1000000)
   = ([Invoke [''ngspice'', ''-V''] cwd (PInt 10000) (PInt 1000000) (PInt 1000000), Popen [''ngspice'', ''-V''] cwd,
          Select (1 / 20), Read Stdout [], Unregister Stdout, Read Stderr [], Unregister Stderr, Wait None],
         Returned ([], [], 0, 10))"
  by (simp add: started_run [where pl = "Some 0"] fallback_fields exiting_proc_def)

lemma version_fallback_run:
  "version fallback_platform None
   = ([Invoke [''ngspice'', ''-v''] ''/tmp/autosage_ngspice_0'' (PInt 10000) (PInt 1000000) (PInt 1000000),
       Popen [''ngspice'', ''-v''] ''/tmp/autosage_ngspice_0'',
       Select (1 / 20), Read Stdout [], Unregister Stdout, Read Stderr [], Unregister Stderr,
       Wait None,
       Invoke [''ngspice'', ''-V''] ''/tmp/autosage_ngspice_0'' (PInt 10000) (PInt 1000000) (PInt 1000000),
       Popen [''ngspice'', ''-V''] ''/tmp/autosage_ngspice_0'',
       Select (1 / 20), Read Stdout [], Unregister Stdout, Read Stderr [], Unregister Stderr,
       Wait None],
      Returned \<lparr>ok = True, stdout = [], stderr = [], files = [],
                 metrics = \<lparr>elapsed_ms = 10, exit_code = 0\<rparr>, error = None\<rparr>)"
  by (simp add: version_def version_result_def response_def default_limits fallback_fields
        fallback_first fallback_second Let_def)

lemma example_run:
  assumes "argv \<noteq> []" "spawn pr = Started"
    and "ticks pr = [\<lparr>elapsed = 0, ready = [(Stdout, Some []), (Stderr, Some [])], polled = pl\<rparr>]"
    and "final pr = Some (code, 1 / 100)"
  shows "run_process (example_platform pr) argv cwd (PInt 10000) (PInt 1000000) (PInt 1000000)
   = ([Invoke argv cwd (PInt 10000) (PInt 1000000) (PInt 1000000), Popen argv cwd,
          Select (1 / 20), Read Stdout [], Unregister Stdout, Read Stderr [], Unregister Stderr, Wait None],
         Returned ([], [], code, 10))"
  using assms by (simp add: started_run [where pl = pl] example_fields)

lemma version_exiting_run:
  "version (example_platform (exiting_proc 0)) (Some [])
   = ([Invoke [''ngspice'', ''-v''] ''/tmp/autosage_ngspice_0'' (PInt 10000) (PInt 1000000) (PInt 1000000),
       Popen [''ngspice'', ''-v''] ''/tmp/autosage_ngspice_0'',
       Select (1 / 20), Read Stdout [], Unregister Stdout, Read Stderr [], Unregister Stderr,
       Wait None],
      Returned \<lparr>ok = True, stdout = [], stderr = [], files = [],
                 metrics = \<lparr>elapsed_ms = 10, exit_code = 0\<rparr>, error = None\<rparr>)"
  by (simp add: version_def version_result_def response_def default_limits example_fields
        example_run [where pl = "Some 0"] exiting_proc_def Let_def)

lemma version_missing_run:
  "version (example_platform missing_proc) None
   = ([Invoke [''ngspice'', ''-v''] ''/tmp/autosage_ngspice_0'' (PInt 10000) (PInt 1000000) (PInt 1000000),
       Popen [''ngspice'', ''-v''] ''/tmp/autosage_ngspice_0''],
      Returned (error_response ''process_not_found'' ''Executable not found: ngspice''
                  [(''argv0'', JStr ''ngspice'')]))"
  by (simp add: version_def default_limits example_fields missing_run missing_proc_def Let_def)

lemma logging_files:
  "collect_files (example_platform logging_proc)
      [(''input.cir'', File ''R1 a b 1k''), (''validate.log'', File ''Error: no such device'')] (PInt 10000000)
   = [\<lparr>name = ''validate.log'', mime = ''application/octet-stream'',
        bytes_base64 = ''base64:Error: no such device''\<rparr>]"
  by (simp add: collect_files_def suffix_def rfind_def lower_def lower_char_def char_of_eq_iff
        ALLOWED_FILE_EXTENSIONS_def example_fields)

lemma logging_log:
  "log_has_errors ''Error: no such device''"
  "log_relevant_excerpt ''Error: no such device'' 50 = ''Error: no such device''"
  by (simp_all add: log_has_errors_def log_relevant_excerpt_def splitlines_def is_linebreak_def
        is_error_line_def lower_def lower_char_def char_of_eq_iff Let_def)

lemma netlist_not_blank: "strip ''R1 a b 1k'' \<noteq> []"
  by (simp add: strip_def isspace_def)

lemma logging_run:
  "run_process (example_platform logging_proc) [''ngspice'', ''-b'', ''-o'', ''validate.log'', ''input.cir'']
      ''/tmp/autosage_ngspice_0'' (PInt 10000) (PInt 1000000) (PInt 1000000)
   = ([Invoke [''ngspice'', ''-b'', ''-o'', ''validate.log'', ''input.cir'']
         ''/tmp/autosage_ngspice_0'' (PInt 10000) (PInt 1000000) (PInt 1000000),
       Popen [''ngspice'', ''-b'', ''-o'', ''validate.log'', ''input.cir''] ''/tmp/autosage_ngspice_0'',
       Select (1 / 20), Read Stdout [], Unregister Stdout, Read Stderr [], Unregister Stderr,
       Wait None],
      Returned ([], [], 0, 10))"
  by (simp add: example_run [where pl = "Some 0"] logging_proc_def)

lemma validate_logging_run:
  "validate_netlist (example_platform logging_proc) (JStr ''R1 a b 1k'') None
   = ([Invoke [''ngspice'', ''-b'', ''-o'', ''validate.log'', ''input.cir'']
         ''/tmp/autosage_ngspice_0'' (PInt 10000) (PInt 1000000) (PInt 1000000),
       Popen [''ngspice'', ''-b'', ''-o'', ''validate.log'', ''input.cir''] ''/tmp/autosage_ngspice_0'',
       Select (1 / 20), Read Stdout [], Unregister Stdout, Read Stderr [], Unregister Stderr,
       Wait None],
      Returned \<lparr>ok = False, stdout = [], stderr = [],
                 files = [\<lparr>name = ''validate.log'', mime = ''application/octet-stream'',
                            bytes_base64 = ''base64:Error: no such device''\<rparr>],
                 metrics = \<lparr>elapsed_ms = 10, exit_code = 0\<rparr>,
                 error = Some \<lparr>type = ''validation_failed'',
                                message = ''ngspice reported validation errors.'',
                                details = [(''exit_code'', JInt 0),
                                           (''log_excerpt'', JStr ''Error: no such device'')]\<rparr>\<rparr>)"
proof -
  have d: "fs (child (example_platform logging_proc) [''ngspice'', ''-b'', ''-o'', ''validate.log'', ''input.cir''])
             [(''input.cir'', File (utf8_encode (example_platform logging_proc) ''R1 a b 1k''))]
           = [(''input.cir'', File ''R1 a b 1k''), (''validate.log'', File ''Error: no such device'')]"
    by (simp add: example_fields logging_proc_def)
  show ?thesis
    unfolding validate_netlist_def
    by (simp add: netlist_not_blank default_limits d logging_run logging_files logging_log
          response_def Let_def example_fields(2,3,7))
qed

section \<open>The adapter: the envelope and the three operations\<close>

lemma version_envelope:
  assumes "snd (version P ls) = Returned r"
  shows "(error r \<noteq> None) = (\<not> ok r)"
  using assms
  by (auto simp: version_def Let_def version_result_def response_def error_response_def
           split: prod.splits outcome.splits exn.splits if_splits)

lemma smoketest_envelope:
  assumes "snd (smoketest P ls) = Returned r"
  shows "(error r \<noteq> None) = (\<not> ok r)"
  using assms
  by (auto simp: smoketest_def Let_def response_def error_response_def
           split: prod.splits outcome.splits exn.splits if_splits)

lemma validate_envelope:
  assumes "snd (validate_netlist P nt ls) = Returned r"
  shows "(error r \<noteq> None) = (\<not> ok r)"
  using assms
  by (auto simp: validate_netlist_def Let_def response_def error_response_def
           split: prod.splits outcome.splits exn.splits if_splits json.splits option.splits node.splits)

lemma handle_run_envelope:
  assumes "snd (handle_run P payload) = Returned r"
  shows "(error r \<noteq> None) = (\<not> ok r)"
  using assms version_envelope [of P _ r] smoketest_envelope [of P _ r] validate_envelope [of P _ _ r]
  by (auto simp: handle_run_def Let_def error_response_def split: json.splits if_splits)

lemma smoketest_exiting_run:
  "smoketest (example_platform (exiting_proc 0)) None
   = ([Invoke [''ngspice'', ''-b'', ''-r'', ''smoke.raw'', ''-o'', ''smoke.log'', ''smoke.cir'']
         ''/tmp/autosage_ngspice_0'' (PInt 10000) (PInt 1000000) (PInt 1000000),
       Popen [''ngspice'', ''-b'', ''-r'', ''smoke.raw'', ''-o'', ''smoke.log'', ''smoke.cir'']
         ''/tmp/autosage_ngspice_0'',
       Select (1 / 20), Read Stdout [], Unregister Stdout, Read Stderr [], Unregister Stderr,
       Wait None],
      Returned \<lparr>ok = False, stdout = [], stderr = [], files = [],
                 metrics = \<lparr>elapsed_ms = 10, exit_code = 0\<rparr>,
                 error = Some \<lparr>type = ''process_failed'', message = ''ngspice smoketest failed.'',
                                details = []\<rparr>\<rparr>)"
proof -
  have c: "collect_files (example_platform (exiting_proc 0)) [(''smoke.cir'', File data)] mx = []" for data mx
    by (simp add: collect_files_def suffix_def rfind_def lower_def lower_char_def
          ALLOWED_FILE_EXTENSIONS_def)
  have f: "fs (exiting_proc 0) d = d" for d
    by (simp add: exiting_proc_def)
  show ?thesis
    unfolding smoketest_def
    by (simp add: default_limits example_fields example_run [where pl = "Some 0"] exiting_proc_def
          c [unfolded exiting_proc_def] response_def Let_def)
qed

lemma handle_run_version_run:
  "handle_run (example_platform (exiting_proc 0))
     (JObj [(''tool'', JStr ''ngspice''), (''op'', JStr ''version''), (''inputs'', JInt 0)])
   = version (example_platform (exiting_proc 0)) (Some [])"
  by (simp add: handle_run_def dict_get_def or_empty_def Let_def)

text \<open>
  C2. In every envelope that version, smoketest, validate_netlist or handle_run returns,
  the error field is present if and only if ok is false.
\<close>

theorem envelope_invariant:
  "(\<forall>r. snd (version P ls) = Returned r \<longrightarrow> (error r \<noteq> None) = (\<not> ok r))
   \<and> (\<forall>r. snd (smoketest P ls) = Returned r \<longrightarrow> (error r \<noteq> None) = (\<not> ok r))
   \<and> (\<forall>r. snd (validate_netlist P netlist_text ls) = Returned r \<longrightarrow> (error r \<noteq> None) = (\<not> ok r))
   \<and> (\<forall>r. snd (handle_run P payload) = Returned r \<longrightarrow> (error r \<noteq> None) = (\<not> ok r))"
  using version_envelope smoketest_envelope validate_envelope handle_run_envelope by blast

theorem envelope_invariant_witness:
  "(\<exists>r. snd (version fallback_platform None) = Returned r \<and> ok r \<and> error r = None)
   \<and> (\<exists>r. snd (smoketest (example_platform (exiting_proc 0)) None) = Returned r
          \<and> \<not> ok r \<and> error r \<noteq> None)
   \<and> (\<exists>r. snd (validate_netlist (example_platform logging_proc) (JStr ''R1 a b 1k'') None) = Returned r
          \<and> \<not> ok r \<and> error r \<noteq> None)
   \<and> (\<exists>r. snd (handle_run (example_platform (exiting_proc 0))
                   (JObj [(''tool'', JStr ''ngspice''), (''op'', JStr ''version''), (''inputs'', JInt 0)]))
              = Returned r \<and> ok r \<and> error r = None)"
proof -
  have "\<exists>r. snd (version fallback_platform None) = Returned r \<and> ok r"
    by (simp add: version_fallback_run)
  then obtain r1 where a1: "snd (version fallback_platform None) = Returned r1" "ok r1" by blast
  from envelope_invariant [where P = fallback_platform and ls = None] a1 have b1: "error r1 = None" by blast
  have "\<exists>r. snd (smoketest (example_platform (exiting_proc 0)) None) = Returned r \<and> \<not> ok r"
    by (simp add: smoketest_exiting_run)
  then obtain r2 where a2: "snd (smoketest (example_platform (exiting_proc 0)) None) = Returned r2" "\<not> ok r2"
    by blast
  from envelope_invariant [where P = "example_platform (exiting_proc 0)" and ls = None] a2
  have b2: "error r2 \<noteq> None" by blast
  have "\<exists>r. snd (validate_netlist (example_platform logging_proc) (JStr ''R1 a b 1k'') None) = Returned r
          \<and> \<not> ok r"
    by (simp add: validate_logging_run)
  then obtain r3 where a3:
    "snd (validate_netlist (example_platform logging_proc) (JStr ''R1 a b 1k'') None) = Returned r3" "\<not> ok r3"
    by blast
  from envelope_invariant [where P = "example_platform logging_proc" and ls = None
      and netlist_text = "JStr ''R1 a b 1k''"] a3
  have b3: "error r3 \<noteq> None" by blast
  have "\<exists>r. snd (handle_run (example_platform (exiting_proc 0))
                   (JObj [(''tool'', JStr ''ngspice''), (''op'', JStr ''version''), (''inputs'', JInt 0)]))
              = Returned r \<and> ok r"
    by (simp add: handle_run_version_run version_exiting_run)
  then obtain r4 where a4:
    "snd (handle_run (example_platform (exiting_proc 0))
                   (JObj [(''tool'', JStr ''ngspice''), (''op'', JStr ''version''), (''inputs'', JInt 0)]))
              = Returned r4" "ok r4"
    by blast
  from envelope_invariant [where P = "example_platform (exiting_proc 0)"
      and payload = "JObj [(''tool'', JStr ''ngspice''), (''op'', JStr ''version''), (''inputs'', JInt 0)]"] a4
  have b4: "error r4 = None" by blast
  from a1 b1 a2 b2 a3 b3 a4 b4 show ?thesis by blast
qed

subsection \<open>version\<close>

text \<open>The runner records one call per call: nothing inside the loop is an invocation.\<close>

lemma feed_invocations: "filter is_invoke (snd (feed mo me st ev)) = []"
  by (simp add: feed_def Let_def)

lemma pump_invocations: "filter is_invoke (snd (pump mo me st evs)) = []"
  by (induction evs arbitrary: st) (simp_all add: split_beta Let_def feed_invocations)

lemma loop_invocations: "filter is_invoke (fst (read_loop ts mo me g st tks)) = []"
  by (induction tks arbitrary: st) (simp_all add: split_beta Let_def pump_invocations)

lemma run_process_invocations:
  "invocations (fst (run_process P argv cwd t mo me)) = [Invoke argv cwd t mo me]"
  by (simp add: run_process_def invocations_def Let_def split_beta loop_invocations
           split: spawn_result.splits loop_exit.splits option.splits)

lemma retry_fields:
  "child retry_missing_platform [''ngspice'', ''-v''] = exiting_proc 1"
  "child retry_missing_platform [''ngspice'', ''-V''] = missing_proc"
  "mkdtemp retry_missing_platform = ''/tmp/autosage_ngspice_0''"
  "utf8_decode retry_missing_platform b = b"
  by (simp_all add: retry_missing_platform_def)

text \<open>
  C7. version calls the runner with \<open>ngspice -v\<close> first, and a second time with
  \<open>ngspice -V\<close>, in the same directory and under the same limits, exactly when the first
  call returned a non-zero exit code. In the envelope it returns, ok holds exactly when the
  exit code is 0 and files is empty. The envelope carries the output, the elapsed time and
  the exit code of the last call, with the error process_failed and the message
  \<open>ngspice version command failed.\<close> when that exit code is not 0. A RunnerError of either
  call gives the failure envelope with that error's type, message and details, elapsed_ms
  0 and exit_code -1.
\<close>

theorem version_behaviour:
  assumes "run_process P [''ngspice'', ''-v''] (mkdtemp P) (timeout_ms (build_limits ls))
             (max_stdout_bytes (build_limits ls)) (max_stderr_bytes (build_limits ls)) = (tr1, r1)"
    and "run_process P [''ngspice'', ''-V''] (mkdtemp P) (timeout_ms (build_limits ls))
             (max_stdout_bytes (build_limits ls)) (max_stderr_bytes (build_limits ls)) = (tr2, r2)"
  shows
    "invocations (fst (version P ls))
       = Invoke [''ngspice'', ''-v''] (mkdtemp P) (timeout_ms (build_limits ls))
           (max_stdout_bytes (build_limits ls)) (max_stderr_bytes (build_limits ls))
         # (if \<exists>out err code ms. r1 = Returned (out, err, code, ms) \<and> code \<noteq> 0
            then [Invoke [''ngspice'', ''-V''] (mkdtemp P) (timeout_ms (build_limits ls))
                    (max_stdout_bytes (build_limits ls)) (max_stderr_bytes (build_limits ls))]
            else [])
     \<and> (\<forall>r. snd (version P ls) = Returned r
            \<longrightarrow> ok r = (exit_code (metrics r) = 0) \<and> files r = [])
     \<and> (\<forall>out err ms. r1 = Returned (out, err, 0, ms)
            \<longrightarrow> version P ls
                 = (tr1, Returned \<lparr>ok = True, stdout = out, stderr = err, files = [],
                                   metrics = \<lparr>elapsed_ms = ms, exit_code = 0\<rparr>, error = None\<rparr>))
     \<and> (\<forall>out err code ms out2 err2 code2 ms2.
            r1 = Returned (out, err, code, ms) \<and> code \<noteq> 0 \<and> r2 = Returned (out2, err2, code2, ms2)
            \<longrightarrow> version P ls
                 = (tr1 @ tr2,
                    Returned \<lparr>ok = (code2 = 0), stdout = out2, stderr = err2, files = [],
                              metrics = \<lparr>elapsed_ms = ms2, exit_code = code2\<rparr>,
                              error = (if code2 = 0 then None
                                       else Some \<lparr>type = ''process_failed'',
                                                   message = ''ngspice version command failed.'',
                                                   details = []\<rparr>)\<rparr>))
     \<and> (\<forall>t m d. r1 = Raised (RunnerError t m d)
            \<longrightarrow> version P ls
                 = (tr1, Returned \<lparr>ok = False, stdout = [], stderr = [], files = [],
                                   metrics = \<lparr>elapsed_ms = 0, exit_code = - 1\<rparr>,
                                   error = Some \<lparr>type = t, message = m, details = d\<rparr>\<rparr>))
     \<and> (\<forall>out err code ms t m d.
            r1 = Returned (out, err, code, ms) \<and> code \<noteq> 0 \<and> r2 = Raised (RunnerError t m d)
            \<longrightarrow> version P ls
                 = (tr1 @ tr2, Returned \<lparr>ok = False, stdout = [], stderr = [], files = [],
                                         metrics = \<lparr>elapsed_ms = 0, exit_code = - 1\<rparr>,
                                         error = Some \<lparr>type = t, message = m, details = d\<rparr>\<rparr>))"
proof -
  let ?c = "mkdtemp P" and ?t = "timeout_ms (build_limits ls)"
    and ?mo = "max_stdout_bytes (build_limits ls)" and ?me = "max_stderr_bytes (build_limits ls)"
  from assms(1) run_process_invocations [of P "[''ngspice'', ''-v'']" ?c ?t ?mo ?me]
  have i1: "invocations tr1 = [Invoke [''ngspice'', ''-v''] ?c ?t ?mo ?me]" by simp
  from assms(2) run_process_invocations [of P "[''ngspice'', ''-V'']" ?c ?t ?mo ?me]
  have i2: "invocations tr2 = [Invoke [''ngspice'', ''-V''] ?c ?t ?mo ?me]" by simp
  have app: "invocations (xs @ ys) = invocations xs @ invocations ys" for xs ys
    by (simp add: invocations_def)
  have inv: "invocations (fst (version P ls))
       = Invoke [''ngspice'', ''-v''] ?c ?t ?mo ?me
         # (if \<exists>out err code ms. r1 = Returned (out, err, code, ms) \<and> code \<noteq> 0
            then [Invoke [''ngspice'', ''-V''] ?c ?t ?mo ?me] else [])"
    using assms i1 i2
    by (auto simp: version_def Let_def app split: outcome.splits exn.splits prod.splits)
  have env: "\<forall>r. snd (version P ls) = Returned r
            \<longrightarrow> ok r = (exit_code (metrics r) = 0) \<and> files r = []"
    using assms
    by (auto simp: version_def Let_def version_result_def response_def error_response_def
             split: outcome.splits exn.splits prod.splits if_splits)
  have rest: "(\<forall>out err ms. r1 = Returned (out, err, 0, ms)
            \<longrightarrow> version P ls
                 = (tr1, Returned \<lparr>ok = True, stdout = out, stderr = err, files = [],
                                   metrics = \<lparr>elapsed_ms = ms, exit_code = 0\<rparr>, error = None\<rparr>))"
    "(\<forall>out err code ms out2 err2 code2 ms2.
            r1 = Returned (out, err, code, ms) \<and> code \<noteq> 0 \<and> r2 = Returned (out2, err2, code2, ms2)
            \<longrightarrow> version P ls
                 = (tr1 @ tr2,
                    Returned \<lparr>ok = (code2 = 0), stdout = out2, stderr = err2, files = [],
                              metrics = \<lparr>elapsed_ms = ms2, exit_code = code2\<rparr>,
                              error = (if code2 = 0 then None
                                       else Some \<lparr>type = ''process_failed'',
                                                   message = ''ngspice version command failed.'',
                                                   details = []\<rparr>)\<rparr>))"
    "(\<forall>t m d. r1 = Raised (RunnerError t m d)
            \<longrightarrow> version P ls
                 = (tr1, Returned \<lparr>ok = False, stdout = [], stderr = [], files = [],
                                   metrics = \<lparr>elapsed_ms = 0, exit_code = - 1\<rparr>,
                                   error = Some \<lparr>type = t, message = m, details = d\<rparr>\<rparr>))"
    "(\<forall>out err code ms t m d.
            r1 = Returned (out, err, code, ms) \<and> code \<noteq> 0 \<and> r2 = Raised (RunnerError t m d)
            \<longrightarrow> version P ls
                 = (tr1 @ tr2, Returned \<lparr>ok = False, stdout = [], stderr = [], files = [],
                                         metrics = \<lparr>elapsed_ms = 0, exit_code = - 1\<rparr>,
                                         error = Some \<lparr>type = t, message = m, details = d\<rparr>\<rparr>))"
    using assms
    by (simp_all add: version_def Let_def version_result_def response_def error_response_def)
  from inv env rest show ?thesis by blast
qed

theorem version_behaviour_witness:
  "snd (run_process fallback_platform [''ngspice'', ''-v''] (mkdtemp fallback_platform)
          (timeout_ms (build_limits None)) (max_stdout_bytes (build_limits None))
          (max_stderr_bytes (build_limits None))) = Returned ([], [], 1, 10)
   \<and> snd (run_process fallback_platform [''ngspice'', ''-V''] (mkdtemp fallback_platform)
          (timeout_ms (build_limits None)) (max_stdout_bytes (build_limits None))
          (max_stderr_bytes (build_limits None))) = Returned ([], [], 0, 10)
   \<and> invocations (fst (version fallback_platform None))
       = [Invoke [''ngspice'', ''-v''] ''/tmp/autosage_ngspice_0'' (PInt 10000) (PInt 1000000) (PInt 1000000),
          Invoke [''ngspice'', ''-V''] ''/tmp/autosage_ngspice_0'' (PInt 10000) (PInt 1000000) (PInt 1000000)]
   \<and> snd (version fallback_platform None)
       = Returned \<lparr>ok = True, stdout = [], stderr = [], files = [],
                    metrics = \<lparr>elapsed_ms = 10, exit_code = 0\<rparr>, error = None\<rparr>
   \<and> snd (run_process (example_platform (exiting_proc 0)) [''ngspice'', ''-v'']
          (mkdtemp (example_platform (exiting_proc 0)))
          (timeout_ms (build_limits None)) (max_stdout_bytes (build_limits None))
          (max_stderr_bytes (build_limits None))) = Returned ([], [], 0, 10)
   \<and> invocations (fst (version (example_platform (exiting_proc 0)) None))
       = [Invoke [''ngspice'', ''-v''] ''/tmp/autosage_ngspice_0'' (PInt 10000) (PInt 1000000) (PInt 1000000)]
   \<and> snd (version (example_platform (exiting_proc 0)) None)
       = Returned \<lparr>ok = True, stdout = [], stderr = [], files = [],
                    metrics = \<lparr>elapsed_ms = 10, exit_code = 0\<rparr>, error = None\<rparr>
   \<and> snd (run_process (example_platform (exiting_proc 1)) [''ngspice'', ''-v'']
          (mkdtemp (example_platform (exiting_proc 1)))
          (timeout_ms (build_limits None)) (max_stdout_bytes (build_limits None))
          (max_stderr_bytes (build_limits None))) = Returned ([], [], 1, 10)
   \<and> snd (run_process (example_platform (exiting_proc 1)) [''ngspice'', ''-V'']
          (mkdtemp (example_platform (exiting_proc 1)))
          (timeout_ms (build_limits None)) (max_stdout_bytes (build_limits None))
          (max_stderr_bytes (build_limits None))) = Returned ([], [], 1, 10)
   \<and> snd (version (example_platform (exiting_proc 1)) None)
       = Returned \<lparr>ok = False, stdout = [], stderr = [], files = [],
                    metrics = \<lparr>elapsed_ms = 10, exit_code = 1\<rparr>,
                    error = Some \<lparr>type = ''process_failed'',
                                   message = ''ngspice version command failed.'', details = []\<rparr>\<rparr>
   \<and> snd (run_process (example_platform missing_proc) [''ngspice'', ''-v'']
          (mkdtemp (example_platform missing_proc))
          (timeout_ms (build_limits None)) (max_stdout_bytes (build_limits None))
          (max_stderr_bytes (build_limits None)))
       = Raised (RunnerError ''process_not_found'' ''Executable not found: ngspice''
                   [(''argv0'', JStr ''ngspice'')])
   \<and> invocations (fst (version (example_platform missing_proc) None))
       = [Invoke [''ngspice'', ''-v''] ''/tmp/autosage_ngspice_0'' (PInt 10000) (PInt 1000000) (PInt 1000000)]
   \<and> snd (version (example_platform missing_proc) None)
       = Returned \<lparr>ok = False, stdout = [], stderr = [], files = [],
                    metrics = \<lparr>elapsed_ms = 0, exit_code = - 1\<rparr>,
                    error = Some \<lparr>type = ''process_not_found'',
                                   message = ''Executable not found: ngspice'',
                                   details = [(''argv0'', JStr ''ngspice'')]\<rparr>\<rparr>
   \<and> snd (run_process retry_missing_platform [''ngspice'', ''-v''] (mkdtemp retry_missing_platform)
          (timeout_ms (build_limits None)) (max_stdout_bytes (build_limits None))
          (max_stderr_bytes (build_limits None))) = Returned ([], [], 1, 10)
   \<and> snd (run_process retry_missing_platform [''ngspice'', ''-V''] (mkdtemp retry_missing_platform)
          (timeout_ms (build_limits None)) (max_stdout_bytes (build_limits None))
          (max_stderr_bytes (build_limits None)))
       = Raised (RunnerError ''process_not_found'' ''Executable not found: ngspice''
                   [(''argv0'', JStr ''ngspice'')])
   \<and> snd (version retry_missing_platform None)
       = Returned \<lparr>ok = False, stdout = [], stderr = [], files = [],
                    metrics = \<lparr>elapsed_ms = 0, exit_code = - 1\<rparr>,
                    error = Some \<lparr>type = ''process_not_found'',
                                   message = ''Executable not found: ngspice'',
                                   details = [(''argv0'', JStr ''ngspice'')]\<rparr>\<rparr>"
proof -
  note vb = version_behaviour [OF prod.collapse [symmetric] prod.collapse [symmetric]]
  note ev = default_limits example_fields fallback_fields retry_fields
  have a1: "snd (run_process fallback_platform [''ngspice'', ''-v''] (mkdtemp fallback_platform)
          (timeout_ms (build_limits None)) (max_stdout_bytes (build_limits None))
          (max_stderr_bytes (build_limits None))) = Returned ([], [], 1, 10)"
    by (simp add: ev fallback_first)
  have a2: "snd (run_process fallback_platform [''ngspice'', ''-V''] (mkdtemp fallback_platform)
          (timeout_ms (build_limits None)) (max_stdout_bytes (build_limits None))
          (max_stderr_bytes (build_limits None))) = Returned ([], [], 0, 10)"
    by (simp add: ev fallback_second)
  from vb [where P = fallback_platform and ls = None, THEN conjunct1] a1
  have a3: "invocations (fst (version fallback_platform None))
       = [Invoke [''ngspice'', ''-v''] ''/tmp/autosage_ngspice_0'' (PInt 10000) (PInt 1000000) (PInt 1000000),
          Invoke [''ngspice'', ''-V''] ''/tmp/autosage_ngspice_0'' (PInt 10000) (PInt 1000000) (PInt 1000000)]"
    by (simp add: ev)
  from vb [where P = fallback_platform and ls = None, THEN conjunct2, THEN conjunct2, THEN conjunct2,
      THEN conjunct1, rule_format, of "[]" "[]" 1 10 "[]" "[]" 0 10] a1 a2
  have a4: "snd (version fallback_platform None)
       = Returned \<lparr>ok = True, stdout = [], stderr = [], files = [],
                    metrics = \<lparr>elapsed_ms = 10, exit_code = 0\<rparr>, error = None\<rparr>"
    by simp
  have b1: "snd (run_process (example_platform (exiting_proc 0)) [''ngspice'', ''-v'']
          (mkdtemp (example_platform (exiting_proc 0)))
          (timeout_ms (build_limits None)) (max_stdout_bytes (build_limits None))
          (max_stderr_bytes (build_limits None))) = Returned ([], [], 0, 10)"
    by (simp add: ev example_run [where pl = "Some 0"] exiting_proc_def)
  from vb [where P = "example_platform (exiting_proc 0)" and ls = None, THEN conjunct1] b1
  have b2: "invocations (fst (version (example_platform (exiting_proc 0)) None))
       = [Invoke [''ngspice'', ''-v''] ''/tmp/autosage_ngspice_0'' (PInt 10000) (PInt 1000000) (PInt 1000000)]"
    by (simp add: ev)
  from vb [where P = "example_platform (exiting_proc 0)" and ls = None, THEN conjunct2, THEN conjunct2,
      THEN conjunct1, rule_format, of "[]" "[]" 10] b1
  have b3: "snd (version (example_platform (exiting_proc 0)) None)
       = Returned \<lparr>ok = True, stdout = [], stderr = [], files = [],
                    metrics = \<lparr>elapsed_ms = 10, exit_code = 0\<rparr>, error = None\<rparr>"
    by simp
  have c1: "snd (run_process (example_platform (exiting_proc 1)) [''ngspice'', ''-v'']
          (mkdtemp (example_platform (exiting_proc 1)))
          (timeout_ms (build_limits None)) (max_stdout_bytes (build_limits None))
          (max_stderr_bytes (build_limits None))) = Returned ([], [], 1, 10)"
    by (simp add: ev example_run [where pl = "Some 1"] exiting_proc_def)
  have c2: "snd (run_process (example_platform (exiting_proc 1)) [''ngspice'', ''-V'']
          (mkdtemp (example_platform (exiting_proc 1)))
          (timeout_ms (build_limits None)) (max_stdout_bytes (build_limits None))
          (max_stderr_bytes (build_limits None))) = Returned ([], [], 1, 10)"
    by (simp add: ev example_run [where pl = "Some 1"] exiting_proc_def)
  from vb [where P = "example_platform (exiting_proc 1)" and ls = None, THEN conjunct2, THEN conjunct2,
      THEN conjunct2, THEN conjunct1, rule_format, of "[]" "[]" 1 10 "[]" "[]" 1 10] c1 c2
  have c3: "snd (version (example_platform (exiting_proc 1)) None)
       = Returned \<lparr>ok = False, stdout = [], stderr = [], files = [],
                    metrics = \<lparr>elapsed_ms = 10, exit_code = 1\<rparr>,
                    error = Some \<lparr>type = ''process_failed'',
                                   message = ''ngspice version command failed.'', details = []\<rparr>\<rparr>"
    by simp
  have d1: "snd (run_process (example_platform missing_proc) [''ngspice'', ''-v'']
          (mkdtemp (example_platform missing_proc))
          (timeout_ms (build_limits None)) (max_stdout_bytes (build_limits None))
          (max_stderr_bytes (build_limits None)))
       = Raised (RunnerError ''process_not_found'' ''Executable not found: ngspice''
                   [(''argv0'', JStr ''ngspice'')])"
    by (simp add: ev missing_run missing_proc_def)
  from vb [where P = "example_platform missing_proc" and ls = None, THEN conjunct1] d1
  have d2: "invocations (fst (version (example_platform missing_proc) None))
       = [Invoke [''ngspice'', ''-v''] ''/tmp/autosage_ngspice_0'' (PInt 10000) (PInt 1000000) (PInt 1000000)]"
    by (simp add: ev)
  from vb [where P = "example_platform missing_proc" and ls = None, THEN conjunct2, THEN conjunct2,
      THEN conjunct2, THEN conjunct2, THEN conjunct1, rule_format,
      of "''process_not_found''" "''Executable not found: ngspice''" "[(''argv0'', JStr ''ngspice'')]"] d1
  have d3: "snd (version (example_platform missing_proc) None)
       = Returned \<lparr>ok = False, stdout = [], stderr = [], files = [],
                    metrics = \<lparr>elapsed_ms = 0, exit_code = - 1\<rparr>,
                    error = Some \<lparr>type = ''process_not_found'',
                                   message = ''Executable not found: ngspice'',
                                   details = [(''argv0'', JStr ''ngspice'')]\<rparr>\<rparr>"
    by simp
  have e1: "snd (run_process retry_missing_platform [''ngspice'', ''-v''] (mkdtemp retry_missing_platform)
          (timeout_ms (build_limits None)) (max_stdout_bytes (build_limits None))
          (max_stderr_bytes (build_limits None))) = Returned ([], [], 1, 10)"
    by (simp add: ev started_run [where pl = "Some 1"] exiting_proc_def)
  have e2: "snd (run_process retry_missing_platform [''ngspice'', ''-V''] (mkdtemp retry_missing_platform)
          (timeout_ms (build_limits None)) (max_stdout_bytes (build_limits None))
          (max_stderr_bytes (build_limits None)))
       = Raised (RunnerError ''process_not_found'' ''Executable not found: ngspice''
                   [(''argv0'', JStr ''ngspice'')])"
    by (simp add: ev missing_run missing_proc_def)
  from vb [where P = retry_missing_platform and ls = None, THEN conjunct2, THEN conjunct2,
      THEN conjunct2, THEN conjunct2, THEN conjunct2, rule_format,
      of "[]" "[]" 1 10 "''process_not_found''" "''Executable not found: ngspice''"
         "[(''argv0'', JStr ''ngspice'')]"] e1 e2
  have e3: "snd (version retry_missing_platform None)
       = Returned \<lparr>ok = False, stdout = [], stderr = [], files = [],
                    metrics = \<lparr>elapsed_ms = 0, exit_code = - 1\<rparr>,
                    error = Some \<lparr>type = ''process_not_found'',
                                   message = ''Executable not found: ngspice'',
                                   details = [(''argv0'', JStr ''ngspice'')]\<rparr>\<rparr>"
    by simp
  from a1 a2 a3 a4 b1 b2 b3 c1 c2 c3 d1 d2 d3 e1 e2 e3 show ?thesis by blast
qed

section \<open>The dispatcher: the shape of a request\<close>

text \<open>
  What the check of lines 49-52 does reject, once the tool and the operation are accepted:
  a value of \<open>inputs\<close> or \<open>limits\<close> that is truthy and not an object.
\<close>

lemma handle_run_rejects_truthy_non_objects:
  assumes "map_of pl ''tool'' = Some (JStr ''ngspice'')"
    and "map_of pl ''op'' = Some (JStr op)"
    and "op \<in> {''version'', ''smoketest'', ''validate_netlist''}"
    and "(truthy (dict_get pl ''inputs'') \<and> (\<forall>d. dict_get pl ''inputs'' \<noteq> JObj d))
       \<or> (truthy (dict_get pl ''limits'') \<and> (\<forall>d. dict_get pl ''limits'' \<noteq> JObj d))"
  shows "\<exists>msg. handle_run P (JObj pl)
           = ([], Returned \<lparr>ok = False, stdout = [], stderr = [], files = [],
                             metrics = \<lparr>elapsed_ms = 0, exit_code = - 1\<rparr>,
                             error = Some \<lparr>type = ''invalid_request'', message = msg, details = []\<rparr>\<rparr>)"
proof -
  from assms(1,2) have t: "dict_get pl ''tool'' = JStr ''ngspice''" "dict_get pl ''op'' = JStr op"
    by (simp_all add: dict_get_def)
  show ?thesis
  proof (cases "truthy (dict_get pl ''inputs'') \<and> (\<forall>d. dict_get pl ''inputs'' \<noteq> JObj d)")
    case True
    then have "or_empty (dict_get pl ''inputs'') = dict_get pl ''inputs''"
      by (simp add: or_empty_def)
    with True t assms(3) show ?thesis
      by (cases "dict_get pl ''inputs''")
         (auto simp: handle_run_def Let_def error_response_def)
  next
    case False
    with assms(4) have l: "truthy (dict_get pl ''limits'')" "\<forall>d. dict_get pl ''limits'' \<noteq> JObj d"
      by blast+
    then have "or_empty (dict_get pl ''limits'') = dict_get pl ''limits''"
      by (simp add: or_empty_def)
    with l t assms(3) show ?thesis
      by (cases "or_empty (dict_get pl ''inputs'')"; cases "dict_get pl ''limits''")
         (auto simp: handle_run_def Let_def error_response_def)
  qed
qed

text \<open>
  C6. A value of \<open>inputs\<close> or \<open>limits\<close> that is present, is not an object and is falsy (an
  empty list, an empty string, zero, false) is not rejected: \<open>payload.get(...) or {}\<close>
  (lines 42-43) puts an empty object in its place before the check of lines 49-52 looks at
  it. With \<open>"inputs": []\<close>, and likewise with \<open>"limits": 0\<close>, handle_run calls version, which
  starts ngspice and returns ok = true.
\<close>

theorem handle_run_accepts_falsy_non_objects:
  "handle_run (example_platform (exiting_proc 0))
     (JObj [(''tool'', JStr ''ngspice''), (''op'', JStr ''version''), (''inputs'', JList [])])
   = ([Invoke [''ngspice'', ''-v''] ''/tmp/autosage_ngspice_0'' (PInt 10000) (PInt 1000000) (PInt 1000000),
       Popen [''ngspice'', ''-v''] ''/tmp/autosage_ngspice_0'',
       Select (1 / 20), Read Stdout [], Unregister Stdout, Read Stderr [], Unregister Stderr,
       Wait None],
      Returned \<lparr>ok = True, stdout = [], stderr = [], files = [],
                 metrics = \<lparr>elapsed_ms = 10, exit_code = 0\<rparr>, error = None\<rparr>)
   \<and> handle_run (example_platform (exiting_proc 0))
       (JObj [(''tool'', JStr ''ngspice''), (''op'', JStr ''version''), (''limits'', JInt 0)])
   = ([Invoke [''ngspice'', ''-v''] ''/tmp/autosage_ngspice_0'' (PInt 10000) (PInt 1000000) (PInt 1000000),
       Popen [''ngspice'', ''-v''] ''/tmp/autosage_ngspice_0'',
       Select (1 / 20), Read Stdout [], Unregister Stdout, Read Stderr [], Unregister Stderr,
       Wait None],
      Returned \<lparr>ok = True, stdout = [], stderr = [], files = [],
                 metrics = \<lparr>elapsed_ms = 10, exit_code = 0\<rparr>, error = None\<rparr>)"
  by (simp add: handle_run_def dict_get_def or_empty_def Let_def version_exiting_run)

section \<open>The adapter: collected files\<close>

text \<open>The loop of \<open>_collect_files\<close> keeps the entries that pass its three tests, in their order.\<close>

lemma collect_comprehension:
  "collect P m es
     = [\<lparr>name = nm,
          mime = (case guess_type P nm of
                    None \<Rightarrow> ''application/octet-stream''
                  | Some t \<Rightarrow> if t = [] then ''application/octet-stream'' else t),
          bytes_base64 = b64encode P data\<rparr>.
        (nm, File data) \<leftarrow> es, lower (suffix nm) \<in> ALLOWED_FILE_EXTENSIONS, int (length data) \<le> m]"
  by (induction es) (auto split: node.splits)

lemma collect_names:
  "map name (collect P m es)
     = map fst (filter (\<lambda>e. case snd e of
                               File data \<Rightarrow> lower (suffix (fst e)) \<in> ALLOWED_FILE_EXTENSIONS
                                              \<and> int (length data) \<le> m
                             | Directory \<Rightarrow> False) es)"
  by (induction es) (auto split: node.splits)

lemma collect_member: "a \<in> set (collect P m es)
          \<longleftrightarrow> (\<exists>nm data. (nm, File data) \<in> set es
                 \<and> lower (suffix nm) \<in> ALLOWED_FILE_EXTENSIONS
                 \<and> int (length data) \<le> m
                 \<and> a = \<lparr>name = nm,
                         mime = (case guess_type P nm of
                                   None \<Rightarrow> ''application/octet-stream''
                                 | Some t \<Rightarrow> if t = [] then ''application/octet-stream'' else t),
                         bytes_base64 = b64encode P data\<rparr>)"
proof (induction es)
  case Nil
  then show ?case by simp
next
  case (Cons e es)
  obtain nm nd where e: "e = (nm, nd)" by (cases e)
  show ?case
  proof (cases nd)
    case Directory
    with e Cons.IH show ?thesis by auto
  next
    case (File data)
    show ?thesis
    proof (cases "lower (suffix nm) \<in> ALLOWED_FILE_EXTENSIONS \<and> int (length data) \<le> m")
      case True
      with e File Cons.IH show ?thesis by auto
    next
      case False
      with e File Cons.IH show ?thesis by auto
    qed
  qed
qed

lemma sorted_names: "sorted (map name (collect_files P wd mx))"
proof -
  have "sorted (map fst (sort_key fst wd))"
    by (rule sorted_sort_key)
  then show ?thesis
    unfolding collect_files_def collect_names by (rule sorted_filter)
qed

text \<open>
  C9, as the claim states it, fails: the extension is put into lower case before it is
  looked up (line 66), so a regular file named \<open>OUT.LOG\<close>, whose extension \<open>.LOG\<close> is none
  of \<open>.log\<close>, \<open>.raw\<close> and \<open>.txt\<close>, is collected.
\<close>

theorem collect_files_upper_case_counterexample:
  "suffix ''OUT.LOG'' = ''.LOG''
   \<and> ''.LOG'' \<notin> ALLOWED_FILE_EXTENSIONS
   \<and> collect_files (example_platform (exiting_proc 0)) [(''OUT.LOG'', File ''x'')] (PInt 10)
     = [\<lparr>name = ''OUT.LOG'', mime = ''application/octet-stream'', bytes_base64 = ''base64:x''\<rparr>]"
  by (simp add: collect_files_def suffix_def rfind_def lower_def lower_char_def char_of_eq_iff
        ALLOWED_FILE_EXTENSIONS_def example_fields)

text \<open>
  C9, amended. The collected list holds one entry for each regular file of the working
  directory whose suffix (the name from its last dot on; a name such as \<open>.log\<close>, whose only
  dot comes first, has none), put into lower case, is one of \<open>.log\<close>, \<open>.raw\<close> and
  \<open>.txt\<close>, and whose size does not exceed max_file_bytes, and no other entry. The entries
  stand in ascending order of the file names, entry by entry as the directory sorted by
  name has them, and each one carries the name of the file, the MIME type guessed from the
  name, or \<open>application/octet-stream\<close> when there is none, and the whole content in Base64.
  The order is that of Python's string comparison, in which upper-case letters come first.
\<close>

theorem collect_files_contents:
  "collect_files P wd mx
     = [\<lparr>name = nm,
          mime = (case guess_type P nm of
                    None \<Rightarrow> ''application/octet-stream''
                  | Some t \<Rightarrow> if t = [] then ''application/octet-stream'' else t),
          bytes_base64 = b64encode P data\<rparr>.
        (nm, File data) \<leftarrow> sort_key fst wd,
        lower (suffix nm) \<in> {''.log'', ''.raw'', ''.txt''}, int (length data) \<le> ival mx]
   \<and> sorted (map name (collect_files P wd mx))
   \<and> (\<forall>a. a \<in> set (collect_files P wd mx)
          \<longleftrightarrow> (\<exists>nm data. (nm, File data) \<in> set wd
                 \<and> lower (suffix nm) \<in> {''.log'', ''.raw'', ''.txt''}
                 \<and> int (length data) \<le> ival mx
                 \<and> a = \<lparr>name = nm,
                         mime = (case guess_type P nm of
                                   None \<Rightarrow> ''application/octet-stream''
                                 | Some t \<Rightarrow> if t = [] then ''application/octet-stream'' else t),
                         bytes_base64 = b64encode P data\<rparr>))"
proof -
  have c: "collect_files P wd mx
     = [\<lparr>name = nm,
          mime = (case guess_type P nm of
                    None \<Rightarrow> ''application/octet-stream''
                  | Some t \<Rightarrow> if t = [] then ''application/octet-stream'' else t),
          bytes_base64 = b64encode P data\<rparr>.
        (nm, File data) \<leftarrow> sort_key fst wd,
        lower (suffix nm) \<in> {''.log'', ''.raw'', ''.txt''}, int (length data) \<le> ival mx]"
    unfolding collect_files_def collect_comprehension ALLOWED_FILE_EXTENSIONS_def ..
  have m: "a \<in> set (collect_files P wd mx)
          \<longleftrightarrow> (\<exists>nm data. (nm, File data) \<in> set wd
                 \<and> lower (suffix nm) \<in> {''.log'', ''.raw'', ''.txt''}
                 \<and> int (length data) \<le> ival mx
                 \<and> a = \<lparr>name = nm,
                         mime = (case guess_type P nm of
                                   None \<Rightarrow> ''application/octet-stream''
                                 | Some t \<Rightarrow> if t = [] then ''application/octet-stream'' else t),
                         bytes_base64 = b64encode P data\<rparr>)" for a
    by (simp add: collect_files_def collect_member ALLOWED_FILE_EXTENSIONS_def)
  from c sorted_names m show ?thesis by blast
qed

theorem collect_files_contents_witness:
  "collect_files (example_platform (exiting_proc 0))
      [(''b.txt'', File ''hello''), (''OUT.LOG'', File ''x''), (''.log'', File ''''),
       (''a.raw'', File ''12345678901''), (''d.log'', Directory), (''c.cir'', File ''R1'')] (PInt 10)
   = [\<lparr>name = ''OUT.LOG'', mime = ''application/octet-stream'', bytes_base64 = ''base64:x''\<rparr>,
      \<lparr>name = ''b.txt'', mime = ''application/octet-stream'', bytes_base64 = ''base64:hello''\<rparr>]
   \<and> sorted [''OUT.LOG'', ''b.txt'']"
proof -
  have s: "sort_key fst [(''b.txt'', File ''hello''), (''OUT.LOG'', File ''x''), (''.log'', File ''''),
       (''a.raw'', File ''12345678901''), (''d.log'', Directory), (''c.cir'', File ''R1'')]
     = [(''.log'', File ''''), (''OUT.LOG'', File ''x''), (''a.raw'', File ''12345678901''),
        (''b.txt'', File ''hello''), (''c.cir'', File ''R1''), (''d.log'', Directory)]"
    by simp
  note t = collect_files_contents [of "example_platform (exiting_proc 0)"
      "[(''b.txt'', File ''hello''), (''OUT.LOG'', File ''x''), (''.log'', File ''''),
       (''a.raw'', File ''12345678901''), (''d.log'', Directory), (''c.cir'', File ''R1'')]" "PInt 10"]
  from t [THEN conjunct1]
  have c: "collect_files (example_platform (exiting_proc 0))
      [(''b.txt'', File ''hello''), (''OUT.LOG'', File ''x''), (''.log'', File ''''),
       (''a.raw'', File ''12345678901''), (''d.log'', Directory), (''c.cir'', File ''R1'')] (PInt 10)
   = [\<lparr>name = ''OUT.LOG'', mime = ''application/octet-stream'', bytes_base64 = ''base64:x''\<rparr>,
      \<lparr>name = ''b.txt'', mime = ''application/octet-stream'', bytes_base64 = ''base64:hello''\<rparr>]"
    unfolding s
    by (simp add: suffix_def rfind_def lower_def lower_char_def char_of_eq_iff example_fields)
  from t [THEN conjunct2, THEN conjunct1] have "sorted [''OUT.LOG'', ''b.txt'']"
    unfolding c by simp
  with c show ?thesis by blast
qed

section \<open>The adapter: validate_netlist\<close>





end
